theory Spec2Isabelle
  imports Complex_Main "HOL-Library.Log_Nat" "HOL-Library.Word"
begin

unbundle bit_operations_syntax

section \<open>Python values, exceptions and HTTP outcomes\<close>

text \<open>
  The program is a Flask server (\<^verbatim>\<open>pcan_api_server.py\<close>) in front of the PCAN-Basic
  driver. Request bodies and response bodies are JSON; a request body is the Python value
  that \<^verbatim>\<open>request.get_json()\<close> returns. A dictionary is an association list read with
  \<open>map_of\<close>. A Python \<^verbatim>\<open>str\<close> is represented by the UTF-8 encoding of its
  characters (a \<^verbatim>\<open>str\<close> with a lone surrogate has none and is outside the model), a
  \<^verbatim>\<open>bytes\<close> object by its bytes; both are lists of 8-bit characters. A Python
  \<^verbatim>\<open>float\<close> is represented by the exact rational value of the finite binary64 number
  it holds (the two zeros are identified).
\<close>

datatype json =
    JNull
  | JBool bool
  | JInt int
  | JFloat rat
  | JStr string
  | JArr "json list"
  | JObj "(string \<times> json) list"

text \<open>The exceptions the handlers can meet. \<open>OverflowError\<close> is Python's
  "int too large to convert to float"; \<open>UnicodeDecodeError\<close> is a subclass of
  \<open>ValueError\<close>, so that \<^verbatim>\<open>except ValueError\<close> catches it.\<close>

datatype py_exn = TypeError | ValueError | KeyError | IndexError | AttributeError
  | OverflowError | ZeroDivisionError | UnicodeDecodeError

text \<open>A handler either returns a response (status code and JSON body; \<^verbatim>\<open>jsonify(x)\<close>
  alone is status 200) or lets an exception escape, which Flask answers with a
  500 Internal Server Error page.\<close>

datatype outcome = Response nat json | Unhandled py_exn

text \<open>Truth value of a Python object, as \<^verbatim>\<open>if x:\<close> tests it.\<close>

fun truthy :: "json \<Rightarrow> bool" where
  "truthy JNull = False"
| "truthy (JBool b) = b"
| "truthy (JInt n) = (n \<noteq> 0)"
| "truthy (JFloat x) = (x \<noteq> 0)"
| "truthy (JStr s) = (s \<noteq> [])"
| "truthy (JArr xs) = (xs \<noteq> [])"
| "truthy (JObj kvs) = (kvs \<noteq> [])"

text \<open>\<^verbatim>\<open>d.get(k, default)\<close>: only a dictionary has the method.\<close>

fun py_get :: "json \<Rightarrow> string \<Rightarrow> json \<Rightarrow> py_exn + json" where
  "py_get (JObj kvs) k dflt = Inr (case map_of kvs k of None \<Rightarrow> dflt | Some v \<Rightarrow> v)"
| "py_get _ k dflt = Inl AttributeError"

text \<open>\<^verbatim>\<open>d[k]\<close> on a dictionary.\<close>

fun py_getitem :: "json \<Rightarrow> string \<Rightarrow> py_exn + json" where
  "py_getitem (JObj kvs) k = (case map_of kvs k of None \<Rightarrow> Inl KeyError | Some v \<Rightarrow> Inr v)"
| "py_getitem _ k = Inl TypeError"

text \<open>
  \<^verbatim>\<open>bytes.decode('utf-8')\<close>: the code points of a well-formed UTF-8 sequence, \<open>None\<close>
  (a \<open>UnicodeDecodeError\<close>) otherwise. A lead byte \<open>C2\<close> to \<open>DF\<close> takes one
  continuation byte, \<open>E0\<close> to \<open>EF\<close> two, \<open>F0\<close> to \<open>F4\<close> three; an overlong form, a
  surrogate and a code point above \<open>10FFFF\<close> are refused.
\<close>

definition is_cont :: "char \<Rightarrow> bool" where
  "is_cont c = (128 \<le> (of_char c :: int) \<and> (of_char c :: int) \<le> 191)"

definition cont_bits :: "char \<Rightarrow> int" where
  "cont_bits c = of_char c - 128"

fun utf8_decode :: "string \<Rightarrow> int list option" where
  "utf8_decode [] = Some []"
| "utf8_decode (a # r) =
     (if (of_char a :: int) < 128 then map_option (Cons (of_char a)) (utf8_decode r)
      else if 194 \<le> (of_char a :: int) \<and> (of_char a :: int) \<le> 223 then
        (case r of
           b # r1 \<Rightarrow>
             if is_cont b
             then map_option (Cons ((of_char a - 192) * 64 + cont_bits b)) (utf8_decode r1)
             else None
         | _ \<Rightarrow> None)
      else if 224 \<le> (of_char a :: int) \<and> (of_char a :: int) \<le> 239 then
        (case r of
           b # c # r2 \<Rightarrow>
             let cp = (of_char a - 224) * 4096 + cont_bits b * 64 + cont_bits c
             in if is_cont b \<and> is_cont c \<and> 2048 \<le> cp \<and> \<not> (55296 \<le> cp \<and> cp \<le> 57343)
                then map_option (Cons cp) (utf8_decode r2)
                else None
         | _ \<Rightarrow> None)
      else if 240 \<le> (of_char a :: int) \<and> (of_char a :: int) \<le> 244 then
        (case r of
           b # c # d # r3 \<Rightarrow>
             let cp = (of_char a - 240) * 262144 + cont_bits b * 4096
                      + cont_bits c * 64 + cont_bits d
             in if is_cont b \<and> is_cont c \<and> is_cont d \<and> 65536 \<le> cp \<and> cp \<le> 1114111
                then map_option (Cons cp) (utf8_decode r3)
                else None
         | _ \<Rightarrow> None)
      else None)"

text \<open>The characters of a \<^verbatim>\<open>str\<close>: each lead byte with the continuation bytes that
  follow it.\<close>

fun chars_of :: "string \<Rightarrow> string list" where
  "chars_of [] = []"
| "chars_of (c # cs) =
     (case chars_of cs of
        [] \<Rightarrow> [[c]]
      | x # xs \<Rightarrow> (case x of
                     [] \<Rightarrow> [c] # xs
                   | y # ys \<Rightarrow> if is_cont y then (c # x) # xs else [c] # x # xs))"

text \<open>\<^verbatim>\<open>len(x)\<close> and the items \<^verbatim>\<open>enumerate(x)\<close> walks through: the elements of a
  list, the characters of a string, the keys of a dictionary.\<close>

fun py_len :: "json \<Rightarrow> py_exn + nat" where
  "py_len (JArr xs) = Inr (length xs)"
| "py_len (JStr s) = Inr (length (chars_of s))"
| "py_len (JObj kvs) = Inr (length kvs)"
| "py_len _ = Inl TypeError"

fun py_iter :: "json \<Rightarrow> py_exn + json list" where
  "py_iter (JArr xs) = Inr xs"
| "py_iter (JStr s) = Inr (map JStr (chars_of s))"
| "py_iter (JObj kvs) = Inr (map (\<lambda>kv. JStr (fst kv)) kvs)"
| "py_iter _ = Inl TypeError"

section \<open>Hexadecimal text\<close>

text \<open>The format code \<^verbatim>\<open>X\<close> of f-strings: upper-case hexadecimal digits, with
  \<^verbatim>\<open>0w\<close> zero padding to width \<open>w\<close> (the sign counts towards the width).\<close>

definition hex_char :: "nat \<Rightarrow> char" where
  "hex_char d = ''0123456789ABCDEF'' ! d"

function hex_digits :: "int \<Rightarrow> string" where
  "hex_digits n = (if n < 16 then [hex_char (nat n)]
                   else hex_digits (n div 16) @ [hex_char (nat (n mod 16))])"
  by pat_completeness auto
termination
  by (relation "measure nat") auto

definition zero_pad :: "nat \<Rightarrow> string \<Rightarrow> string" where
  "zero_pad w s = replicate (w - length s) CHR ''0'' @ s"

definition format_X :: "nat \<Rightarrow> int \<Rightarrow> string" where
  "format_X w n = (if n < 0 then CHR ''-'' # zero_pad (w - 1) (hex_digits (- n))
                   else zero_pad w (hex_digits n))"

text \<open>
  \<^verbatim>\<open>int(s, 16)\<close> on a string. A character from code point 127 on is first replaced:
  white space by a blank, a decimal digit by its ASCII digit, any other by \<open>?\<close>; the two
  tables (\<open>isspace\<close>, \<open>todecimal\<close>) are those of the interpreter's Unicode database and
  are parameters. The ASCII text is then read: optional surrounding white space, an
  optional sign, an optional \<^verbatim>\<open>0x\<close> prefix, then hexadecimal digits that single
  underscores may separate. \<open>None\<close> stands for \<open>ValueError\<close>.
\<close>

definition to_ascii :: "(int \<Rightarrow> bool) \<Rightarrow> (int \<Rightarrow> int option) \<Rightarrow> int \<Rightarrow> int" where
  "to_ascii isspace todecimal cp =
     (if cp < 127 then cp
      else if isspace cp then 32
      else case todecimal cp of Some d \<Rightarrow> 48 + d | None \<Rightarrow> 63)"

definition py_isspace :: "int \<Rightarrow> bool" where
  "py_isspace c = (c \<in> {9, 10, 11, 12, 13, 32})"

definition hex_digit_val :: "int \<Rightarrow> int option" where
  "hex_digit_val n =
     (if 48 \<le> n \<and> n \<le> 57 then Some (n - 48)
      else if 65 \<le> n \<and> n \<le> 70 then Some (n - 55)
      else if 97 \<le> n \<and> n \<le> 102 then Some (n - 87)
      else None)"

fun scan_digits :: "int list \<Rightarrow> int \<Rightarrow> bool \<Rightarrow> (int \<times> int list) option" where
  "scan_digits [] acc prev_us = (if prev_us then None else Some (acc, []))"
| "scan_digits (c # cs) acc prev_us =
     (if c = of_char CHR ''_'' then (if prev_us then None else scan_digits cs acc True)
      else case hex_digit_val c of
             Some d \<Rightarrow> scan_digits cs (16 * acc + d) False
           | None \<Rightarrow> if prev_us then None else Some (acc, c # cs))"

definition strip_sign :: "int list \<Rightarrow> bool \<times> int list" where
  "strip_sign s = (case s of
       [] \<Rightarrow> (False, s)
     | c # cs \<Rightarrow> if c = of_char CHR ''+'' then (False, cs)
                else if c = of_char CHR ''-'' then (True, cs) else (False, s))"

definition strip_0x :: "int list \<Rightarrow> int list" where
  "strip_0x s = (case s of
       a # b # cs \<Rightarrow>
         if a = of_char CHR ''0'' \<and> (b = of_char CHR ''x'' \<or> b = of_char CHR ''X'')
         then (case cs of [] \<Rightarrow> cs | u # cs' \<Rightarrow> if u = of_char CHR ''_'' then cs' else cs)
         else s
     | _ \<Rightarrow> s)"

definition int_base16 :: "int list \<Rightarrow> int option" where
  "int_base16 s =
     (case strip_sign (dropWhile py_isspace s) of (neg, s2) \<Rightarrow>
        (case strip_0x s2 of
           [] \<Rightarrow> None
         | c # cs \<Rightarrow>
             if hex_digit_val c = None then None
             else (case scan_digits (c # cs) 0 False of
                     None \<Rightarrow> None
                   | Some (v, rest) \<Rightarrow>
                       if dropWhile py_isspace rest = []
                       then Some (if neg then - v else v)
                       else None)))"

text \<open>\<^verbatim>\<open>int(x, 16)\<close> on any JSON value: anything but a string is a \<open>TypeError\<close>.\<close>

fun py_int16 :: "(int \<Rightarrow> bool) \<Rightarrow> (int \<Rightarrow> int option) \<Rightarrow> json \<Rightarrow> py_exn + int" where
  "py_int16 isspace todecimal (JStr s) =
     (case utf8_decode s of
        None \<Rightarrow> Inl ValueError
      | Some cps \<Rightarrow>
          (case int_base16 (map (to_ascii isspace todecimal) cps) of
             None \<Rightarrow> Inl ValueError
           | Some n \<Rightarrow> Inr n))"
| "py_int16 isspace todecimal v = Inl TypeError"

section \<open>Binary64 arithmetic\<close>

text \<open>
  \<open>to_double q\<close> is the binary64 number nearest to the rational \<open>q\<close>, ties to even:
  a 53-bit significand above the subnormal range, multiples of \<open>2 powi (-1074)\<close> in it.
  \<open>ilog2 q\<close> is the exponent \<open>\<lfloor>log\<^sub>2 q\<rfloor>\<close> of a positive \<open>q\<close>.
  Converting an \<^verbatim>\<open>int\<close> to \<^verbatim>\<open>float\<close> rounds in the same way and raises
  \<open>OverflowError\<close> beyond the binary64 range. \<^verbatim>\<open>n / d\<close> with an \<^verbatim>\<open>int\<close> \<open>n\<close> and a
  \<^verbatim>\<open>float\<close> \<open>d\<close> converts \<open>n\<close> and divides; the program divides by \<open>100.0\<close> and
  \<open>1000.0\<close> only, where the quotient of a finite number is finite.
  \<^verbatim>\<open>round(x, ndigits)\<close> rounds the exact value of \<open>x\<close> to \<open>ndigits\<close> decimals, ties to
  even, and returns the binary64 number nearest to that decimal.
\<close>

definition round_half_even :: "rat \<Rightarrow> int" where
  "round_half_even x = (let f = \<lfloor>x\<rfloor>; d = x - of_int f
            in if d < 1 / 2 then f else if 1 / 2 < d then f + 1
               else if even f then f else f + 1)"

definition ilog2 :: "rat \<Rightarrow> int" where
  "ilog2 q = (case quotient_of q of (a, b) \<Rightarrow>
       let d = bitlen a - bitlen b in if 2 powi d \<le> q then d else d - 1)"

definition to_double :: "rat \<Rightarrow> rat" where
  "to_double q = (if q = 0 then 0
           else let e = max (ilog2 \<bar>q\<bar> - 52) (- 1074)
                in of_int (round_half_even (q / 2 powi e)) * 2 powi e)"

definition int_to_float :: "int \<Rightarrow> py_exn + rat" where
  "int_to_float n = (let x = to_double (of_int n)
                     in if 2 ^ 1024 \<le> \<bar>x\<bar> then Inl OverflowError else Inr x)"

definition int_truediv_float :: "int \<Rightarrow> rat \<Rightarrow> py_exn + rat" where
  "int_truediv_float n d =
     (case int_to_float n of
        Inl e \<Rightarrow> Inl e
      | Inr x \<Rightarrow> if d = 0 then Inl ZeroDivisionError else Inr (to_double (x / d)))"

definition py_round :: "rat \<Rightarrow> nat \<Rightarrow> rat" where
  "py_round x ndigits = to_double (of_int (round_half_even (x * 10 ^ ndigits)) / 10 ^ ndigits)"

section \<open>The TPMS decoder\<close>

text \<open>
  \<open>parse_sensor_data\<close> takes the payload as a list of Python integers (the handler
  passes the bytes of a received frame) and returns the dictionary of the reading, or
  \<open>None\<close>. Its body runs under \<^verbatim>\<open>try\<close>: an exception gives \<open>None\<close> too, and on
  integers the conversion to \<^verbatim>\<open>float\<close> is the one step that can raise.
\<close>

record reading =
  sensor_id :: int
  packet_type :: int
  pressure :: int
  temperature :: rat
  battery_watts :: rat

definition parse_sensor_data :: "int list \<Rightarrow> reading option" where
  "parse_sensor_data data_bytes =
     (if length data_bytes < 7 then None
      else
        let sensor_id' = data_bytes ! 0;
            packet_type' = data_bytes ! 1;
            pressure' = push_bit 8 (data_bytes ! 2) OR data_bytes ! 3;
            temp_raw = push_bit 8 (data_bytes ! 5) OR data_bytes ! 4
        in case int_truediv_float (temp_raw - 8500) 100 of
             Inl e \<Rightarrow> None
           | Inr temperature' \<Rightarrow>
               let battery_mw = data_bytes ! 6 * 10 + 2000
               in case int_truediv_float battery_mw 1000 of
                    Inl e \<Rightarrow> None
                  | Inr battery_watts' \<Rightarrow>
                      Some \<lparr>sensor_id = sensor_id', packet_type = packet_type',
                            pressure = pressure',
                            temperature = py_round temperature' 2,
                            battery_watts = py_round battery_watts' 2\<rparr>)"

text \<open>The dictionary \<open>parse_sensor_data\<close> returns, as it is placed into a response.\<close>

definition reading_json :: "reading \<Rightarrow> json" where
  "reading_json r = JObj [(''sensor_id'', JInt (sensor_id r)),
                          (''packet_type'', JInt (packet_type r)),
                          (''pressure'', JInt (pressure r)),
                          (''temperature'', JFloat (temperature r)),
                          (''battery_watts'', JFloat (battery_watts r))]"

section \<open>The PCAN-Basic interface\<close>

text \<open>
  Modelled from the spec: the module \<^verbatim>\<open>PCANBasic\<close> (the vendor's binding, imported by
  \<^verbatim>\<open>from PCANBasic import *\<close>) is not part of the source. Its message structures are
  \<^verbatim>\<open>ctypes\<close> structures: a 32-bit \<open>ID\<close>, 8-bit \<open>MSGTYPE\<close> and length fields
  (\<open>LEN\<close> of \<open>TPCANMsg\<close>, \<open>DLC\<close> of \<open>TPCANMsgFD\<close>), and a byte array \<open>DATA\<close> with
  the payload capacity the spec gives: 8 bytes for a classic frame, 64 for an FD frame.
  Storing into a \<^verbatim>\<open>ctypes\<close> integer field keeps the low bits of the value.
  A classic timestamp has the three sub-fields \<open>millis\<close> (32 bits), \<open>millis_overflow\<close>
  and \<open>micros\<close> (16 bits each); an FD timestamp is one 64-bit counter.
\<close>

datatype can_msg =
    TPCANMsg (ID: "32 word") (MSGTYPE: "8 word") (LEN: "8 word") (DATA: "8 word list")
  | TPCANMsgFD (ID: "32 word") (MSGTYPE: "8 word") (DLC: "8 word") (DATA: "8 word list")

datatype timestamp =
    TPCANTimestamp (millis: "32 word") (millis_overflow: "16 word") (micros: "16 word")
  | TPCANTimestampFD "64 word"

text \<open>
  A Python object a global name can be bound to: a \<^verbatim>\<open>ctypes\<close> integer scalar such as
  \<^verbatim>\<open>TPCANHandle(0x51)\<close>, whose attribute \<^verbatim>\<open>value\<close> is an \<^verbatim>\<open>int\<close>; a plain value,
  which has no attribute \<^verbatim>\<open>value\<close>; or any other object (a function, a class, the
  Flask application, a \<^verbatim>\<open>ctypes\<close> string), for which neither the object nor a
  \<^verbatim>\<open>value\<close> attribute of it has a hexadecimal format.
\<close>

datatype pyobj = CType int | PyVal json | PyOther

text \<open>The calls made to the driver object \<^verbatim>\<open>pcan\<close>, in the order they are made.\<close>

datatype dev_call =
    CallInitialize int int
  | CallGetErrorText int
  | CallRead pyobj
  | CallReadFD pyobj
  | CallWrite pyobj can_msg
  | CallWriteFD pyobj can_msg

text \<open>
  The environment of the server is a parameter: the constants of \<^verbatim>\<open>PCANBasic\<close> the
  source names, the methods of the driver object over a driver state \<open>'d\<close> (each returns
  its result and the next driver state), the other names \<^verbatim>\<open>globals()\<close> knows
  (\<open>namespace\<close>), and what belongs to the interpreter: the two tables of its Unicode
  database that \<^verbatim>\<open>int\<close> consults, and the message text \<^verbatim>\<open>str(e)\<close> of an exception,
  which depends on the class of the exception and on the value it was raised for (the
  request body, or the bytes that do not decode). \<open>GetErrorText\<close> returns its status and
  the text as \<^verbatim>\<open>bytes\<close>. An exception inside the driver binding is outside the model.
\<close>

record 'd pcan_env =
  PCAN_ERROR_OK :: int
  PCAN_ERROR_QRCVEMPTY :: int
  PCAN_USBBUS1 :: pyobj
  PCAN_BAUD_500K :: pyobj
  PCAN_MESSAGE_STANDARD :: "8 word"
  PCAN_MESSAGE_EXTENDED :: "8 word"
  PCAN_MESSAGE_RTR :: "8 word"
  namespace :: "string \<Rightarrow> pyobj option"
  Py_UNICODE_ISSPACE :: "int \<Rightarrow> bool"
  Py_UNICODE_TODECIMAL :: "int \<Rightarrow> int option"
  str_exn :: "py_exn \<Rightarrow> json \<Rightarrow> string"
  Initialize :: "'d \<Rightarrow> int \<Rightarrow> int \<Rightarrow> int \<times> 'd"
  GetErrorText :: "'d \<Rightarrow> int \<Rightarrow> (int \<times> string) \<times> 'd"
  Read :: "'d \<Rightarrow> pyobj \<Rightarrow> (int \<times> can_msg \<times> timestamp) \<times> 'd"
  ReadFD :: "'d \<Rightarrow> pyobj \<Rightarrow> (int \<times> can_msg \<times> timestamp) \<times> 'd"
  Write :: "'d \<Rightarrow> pyobj \<Rightarrow> can_msg \<Rightarrow> int \<times> 'd"
  WriteFD :: "'d \<Rightarrow> pyobj \<Rightarrow> can_msg \<Rightarrow> int \<times> 'd"

section \<open>The state of the server\<close>

text \<open>The module's global variables, the state of the driver and the trace of the calls
  made to it. Output printed to the console is not part of the state.\<close>

record 'd server_state =
  PCAN_HANDLE :: pyobj
  BAUDRATE :: pyobj
  IS_FD :: json
  pcan_initialized :: bool
  is_tpms_collection_active :: bool
  device :: 'd
  calls :: "dev_call list"

definition initial_state :: "'d pcan_env \<Rightarrow> 'd \<Rightarrow> 'd server_state" where
  "initial_state P d = \<lparr>PCAN_HANDLE = PCAN_USBBUS1 P, BAUDRATE = PCAN_BAUD_500K P,
       IS_FD = JBool False, pcan_initialized = False,
       is_tpms_collection_active = False, device = d, calls = []\<rparr>"

text \<open>The driver is asked for the text of the status; when it knows one, the bytes are
  decoded as UTF-8, which raises \<open>UnicodeDecodeError\<close> on bytes that are no UTF-8.\<close>

definition get_error_text ::
    "'d pcan_env \<Rightarrow> int \<Rightarrow> 'd server_state \<Rightarrow> (py_exn + string) \<times> 'd server_state" where
  "get_error_text P status st =
     (case GetErrorText P (device st) status of
        ((code, text), d') \<Rightarrow>
          (if code = PCAN_ERROR_OK P then
             (case utf8_decode text of
                None \<Rightarrow> Inl UnicodeDecodeError
              | Some cps \<Rightarrow> Inr text)
           else Inr (''Unknown error code: '' @ format_X 5 status @ ''h''),
           st\<lparr>device := d', calls := calls st @ [CallGetErrorText status]\<rparr>))"

section \<open>TPMS collection state\<close>

definition get_tpms_status :: "'d server_state \<Rightarrow> outcome \<times> 'd server_state" where
  "get_tpms_status st =
     (Response 200 (JObj [(''success'', JBool True),
                          (''is_collecting'', JBool (is_tpms_collection_active st))]), st)"

text \<open>The argument is the request body, \<^verbatim>\<open>request.json\<close>. The flag is set before the
  body is read; \<open>tire_count\<close> is only printed.\<close>

definition start_tpms_collection ::
    "json \<Rightarrow> 'd server_state \<Rightarrow> outcome \<times> 'd server_state" where
  "start_tpms_collection body st =
     (let st1 = st\<lparr>is_tpms_collection_active := True\<rparr>
      in case py_get body ''tire_count'' (JInt 0) of
           Inl e \<Rightarrow> (Unhandled e, st1)
         | Inr tire_count \<Rightarrow>
             (Response 200 (JObj [(''success'', JBool True),
                                  (''message'', JStr ''TPMS collection started.''),
                                  (''is_collecting'', JBool (is_tpms_collection_active st1))]),
              st1))"

definition stop_tpms_collection :: "'d server_state \<Rightarrow> outcome \<times> 'd server_state" where
  "stop_tpms_collection st =
     (let st1 = st\<lparr>is_tpms_collection_active := False\<rparr>
      in (Response 200 (JObj [(''success'', JBool True),
                              (''message'', JStr ''TPMS collection stopped.''),
                              (''is_collecting'', JBool (is_tpms_collection_active st1))]),
          st1))"

section \<open>Initialising the channel\<close>

text \<open>\<^verbatim>\<open>globals()\<close>: the module's own variables, then every other name.\<close>

definition module_globals :: "'d pcan_env \<Rightarrow> 'd server_state \<Rightarrow> string \<Rightarrow> pyobj option" where
  "module_globals P st name =
     (if name = ''PCAN_HANDLE'' then Some (PCAN_HANDLE st)
      else if name = ''BAUDRATE'' then Some (BAUDRATE st)
      else if name = ''IS_FD'' then Some (PyVal (IS_FD st))
      else if name = ''pcan_initialized'' then Some (PyVal (JBool (pcan_initialized st)))
      else if name = ''is_tpms_collection_active''
        then Some (PyVal (JBool (is_tpms_collection_active st)))
      else namespace P name)"

text \<open>\<^verbatim>\<open>globals().get(key, default)\<close>: the key is hashed first, and a list or a
  dictionary is unhashable (\<open>TypeError\<close>); a key that is no string is bound to nothing.\<close>

fun hashable :: "json \<Rightarrow> bool" where
  "hashable (JArr xs) = False"
| "hashable (JObj kvs) = False"
| "hashable v = True"

definition globals_get ::
    "'d pcan_env \<Rightarrow> 'd server_state \<Rightarrow> json \<Rightarrow> pyobj \<Rightarrow> py_exn + pyobj" where
  "globals_get P st key dflt =
     (if \<not> hashable key then Inl TypeError
      else case key of
             JStr name \<Rightarrow> Inr (case module_globals P st name of None \<Rightarrow> dflt | Some v \<Rightarrow> v)
           | _ \<Rightarrow> Inr dflt)"

text \<open>Lines 83 to 91 of \<open>init_can\<close>: the handle and baud rate objects, and the state
  after \<open>IS_FD\<close> is assigned.\<close>

definition resolve_config ::
    "'d pcan_env \<Rightarrow> json \<Rightarrow> 'd server_state \<Rightarrow> py_exn + (pyobj \<times> pyobj \<times> 'd server_state)" where
  "resolve_config P data st =
     (if truthy data then
        (case py_get data ''channel'' (JStr ''PCAN_USBBUS1'') of
           Inl e \<Rightarrow> Inl e
         | Inr channel \<Rightarrow>
        (case globals_get P st channel (PCAN_USBBUS1 P) of
           Inl e \<Rightarrow> Inl e
         | Inr pcan_handle_obj \<Rightarrow>
        (case py_get data ''baudrate'' (JStr ''PCAN_BAUD_500K'') of
           Inl e \<Rightarrow> Inl e
         | Inr baudrate \<Rightarrow>
        (case globals_get P st baudrate (PCAN_BAUD_500K P) of
           Inl e \<Rightarrow> Inl e
         | Inr baudrate_obj \<Rightarrow>
        (case py_get data ''is_fd'' (JBool False) of
           Inl e \<Rightarrow> Inl e
         | Inr is_fd \<Rightarrow> Inr (pcan_handle_obj, baudrate_obj, st\<lparr>IS_FD := is_fd\<rparr>))))))
      else Inr (PCAN_HANDLE st, BAUDRATE st, st))"

text \<open>\<^verbatim>\<open>obj.value if hasattr(obj, 'value') else obj\<close>.\<close>

fun value_of :: "pyobj \<Rightarrow> pyobj" where
  "value_of (CType n) = PyVal (JInt n)"
| "value_of obj = obj"

text \<open>The integer an object formats as under the code \<^verbatim>\<open>X\<close>, which is also the
  integer passed to the driver; every other object raises.\<close>

fun int_operand :: "pyobj \<Rightarrow> py_exn + int" where
  "int_operand (PyVal (JInt n)) = Inr n"
| "int_operand (PyVal (JBool b)) = Inr (if b then 1 else 0)"
| "int_operand (PyVal (JStr s)) = Inl ValueError"
| "int_operand (PyVal (JFloat x)) = Inl ValueError"
| "int_operand _ = Inl TypeError"

definition init_can :: "'d pcan_env \<Rightarrow> json \<Rightarrow> 'd server_state \<Rightarrow> outcome \<times> 'd server_state" where
  "init_can P data st =
     (case resolve_config P data st of
        Inl e \<Rightarrow> (Unhandled e, st)
      | Inr (pcan_handle_obj, baudrate_obj, st1) \<Rightarrow>
          if truthy (IS_FD st1) then
            (Response 501 (JObj [(''success'', JBool False),
               (''error'', JStr ''CAN-FD Initialization is not fully implemented in this example.'')]),
             st1)
          else
            (case int_operand (value_of pcan_handle_obj) of
               Inl e \<Rightarrow> (Unhandled e, st1)
             | Inr handle_value \<Rightarrow>
            (case int_operand (value_of baudrate_obj) of
               Inl e \<Rightarrow> (Unhandled e, st1)
             | Inr baudrate_value \<Rightarrow>
            (case Initialize P (device st1) handle_value baudrate_value of
               (status, d') \<Rightarrow>
                 let st2 = st1\<lparr>device := d',
                        calls := calls st1 @ [CallInitialize handle_value baudrate_value]\<rparr>
                 in if status = PCAN_ERROR_OK P then
                      (Response 200 (JObj [(''success'', JBool True),
                         (''message'', JStr (''Channel '' @ format_X 2 handle_value @
                            ''h initialized successfully at the specified baudrate.''))]),
                       st2\<lparr>PCAN_HANDLE := pcan_handle_obj, pcan_initialized := True\<rparr>)
                    else
                      (case get_error_text P status (st2\<lparr>pcan_initialized := False\<rparr>) of
                         (Inl e, st3) \<Rightarrow> (Unhandled e, st3)
                       | (Inr text, st3) \<Rightarrow>
                           (Response 500 (JObj [(''success'', JBool False),
                                                (''error'', JStr text)]), st3))))))"

section \<open>Reading a frame\<close>

definition ts_value :: "timestamp \<Rightarrow> int" where
  "ts_value timestamp =
     (case timestamp of
        TPCANTimestamp a b c \<Rightarrow>
          uint (micros timestamp) + 1000 * uint (millis timestamp) +
          0x100000000 * 1000 * uint (millis_overflow timestamp)
      | TPCANTimestampFD v \<Rightarrow> uint v)"

text \<open>The length field \<open>read_message\<close> reads: \<open>LEN\<close> when \<open>IS_FD\<close> is false, \<open>DLC\<close>
  otherwise; a structure of the other class has no such attribute.\<close>

fun length_field :: "bool \<Rightarrow> can_msg \<Rightarrow> py_exn + nat" where
  "length_field False (TPCANMsg i t l d) = Inr (unat l)"
| "length_field True (TPCANMsgFD i t l d) = Inr (unat l)"
| "length_field fd m = Inl AttributeError"

definition read_message :: "'d pcan_env \<Rightarrow> 'd server_state \<Rightarrow> outcome \<times> 'd server_state" where
  "read_message P st =
     (case (if truthy (IS_FD st) then ReadFD P (device st) (PCAN_HANDLE st)
            else Read P (device st) (PCAN_HANDLE st)) of
        ((status, can_msg, timestamp), d') \<Rightarrow>
          let st1 = st\<lparr>device := d',
                 calls := calls st @ [if truthy (IS_FD st) then CallReadFD (PCAN_HANDLE st)
                                      else CallRead (PCAN_HANDLE st)]\<rparr>
          in if status = PCAN_ERROR_QRCVEMPTY P then
               (Response 200 (JObj [(''success'', JBool True),
                                    (''message'', JStr ''Receive queue is empty.'')]), st1)
             else if status \<noteq> PCAN_ERROR_OK P then
               (case get_error_text P status st1 of
                  (Inl e, st2) \<Rightarrow> (Unhandled e, st2)
                | (Inr text, st2) \<Rightarrow>
                    (Response 500 (JObj [(''success'', JBool False), (''error'', JStr text)]),
                     st2))
             else
               (case length_field (truthy (IS_FD st)) can_msg of
                  Inl e \<Rightarrow> (Unhandled e, st1)
                | Inr data_len \<Rightarrow>
                    if length (DATA can_msg) < data_len then (Unhandled IndexError, st1)
                    else
                      let data_bytes = map uint (take data_len (DATA can_msg));
                          parsed_data =
                            (if 7 \<le> data_len
                             then (case parse_sensor_data data_bytes of
                                     None \<Rightarrow> JNull
                                   | Some r \<Rightarrow> reading_json r)
                             else JNull);
                          msg_data = JObj [(''id'', JStr (hex_digits (uint (ID can_msg)))),
                                           (''msg_type'', JInt (uint (MSGTYPE can_msg))),
                                           (''len'', JInt (int data_len)),
                                           (''data'', JArr (map JInt data_bytes)),
                                           (''parsed'', parsed_data)]
                      in (Response 200 (JObj [(''success'', JBool True),
                                              (''message'', msg_data),
                                              (''timestamp_us'', JInt (ts_value timestamp))]),
                          st1)))"

section \<open>Writing a frame\<close>

text \<open>Storing a Python value into an element of a \<^verbatim>\<open>c_ubyte\<close> array: an integer
  keeps its low eight bits, anything else is a \<open>TypeError\<close>.\<close>

fun c_ubyte_of :: "json \<Rightarrow> py_exn + 8 word" where
  "c_ubyte_of (JInt n) = Inr (word_of_int n)"
| "c_ubyte_of (JBool b) = Inr (if b then 1 else 0)"
| "c_ubyte_of _ = Inl TypeError"

text \<open>The loop \<^verbatim>\<open>for i, byte_val in enumerate(...): msg.DATA[i] = byte_val\<close>; an index
  beyond the array is an \<open>IndexError\<close>, checked before the value is converted.\<close>

fun store_data :: "8 word list \<Rightarrow> nat \<Rightarrow> json list \<Rightarrow> py_exn + 8 word list" where
  "store_data arr i [] = Inr arr"
| "store_data arr i (byte_val # rest) =
     (if length arr \<le> i then Inl IndexError
      else case c_ubyte_of byte_val of
             Inl e \<Rightarrow> Inl e
           | Inr b \<Rightarrow> store_data (arr[i := b]) (Suc i) rest)"

text \<open>Lines 234 to 254 of \<open>write_message\<close>: the message structure that is handed to
  the driver, or the exception raised while it is filled.\<close>

definition prepare_message :: "'d pcan_env \<Rightarrow> json \<Rightarrow> 'd server_state \<Rightarrow> py_exn + can_msg" where
  "prepare_message P data st =
     (case py_get data ''data'' (JArr []) of
        Inl e \<Rightarrow> Inl e
      | Inr payload \<Rightarrow>
     (case py_len payload of
        Inl e \<Rightarrow> Inl e
      | Inr n \<Rightarrow>
     (case py_getitem data ''id'' of
        Inl e \<Rightarrow> Inl e
      | Inr id_hex \<Rightarrow>
     (case py_int16 (Py_UNICODE_ISSPACE P) (Py_UNICODE_TODECIMAL P) id_hex of
        Inl e \<Rightarrow> Inl e
      | Inr ident \<Rightarrow>
     (case py_get data ''extended'' (JBool False) of
        Inl e \<Rightarrow> Inl e
      | Inr extended \<Rightarrow>
     (case py_get data ''rtr'' (JBool False) of
        Inl e \<Rightarrow> Inl e
      | Inr rtr \<Rightarrow>
          let t0 = PCAN_MESSAGE_STANDARD P;
              t1 = (if truthy extended then t0 OR PCAN_MESSAGE_EXTENDED P else t0);
              t2 = (if truthy rtr then t1 OR PCAN_MESSAGE_RTR P else t1)
          in (case py_iter payload of
                Inl e \<Rightarrow> Inl e
              | Inr items \<Rightarrow>
                  if truthy (IS_FD st) then
                    (case store_data (replicate 64 0) 0 items of
                       Inl e \<Rightarrow> Inl e
                     | Inr arr \<Rightarrow> Inr (TPCANMsgFD (word_of_int ident) t2 (of_nat n) arr))
                  else
                    (case store_data (replicate 8 0) 0 items of
                       Inl e \<Rightarrow> Inl e
                     | Inr arr \<Rightarrow> Inr (TPCANMsg (word_of_int ident) t2 (of_nat n) arr)))))))))"

text \<open>Lines 233 to 265 of \<open>write_message\<close>, the body of the \<^verbatim>\<open>try\<close> statement: the
  response it returns, or the exception it raises together with the value the exception
  was raised for.\<close>

definition write_try ::
    "'d pcan_env \<Rightarrow> json \<Rightarrow> 'd server_state \<Rightarrow> ((py_exn \<times> json) + outcome) \<times> 'd server_state" where
  "write_try P data st =
     (case prepare_message P data st of
        Inl e \<Rightarrow> (Inl (e, data), st)
      | Inr msg \<Rightarrow>
          (case (if truthy (IS_FD st) then WriteFD P (device st) (PCAN_HANDLE st) msg
                 else Write P (device st) (PCAN_HANDLE st) msg) of
             (status, d') \<Rightarrow>
               let st1 = st\<lparr>device := d',
                      calls := calls st @ [if truthy (IS_FD st)
                                           then CallWriteFD (PCAN_HANDLE st) msg
                                           else CallWrite (PCAN_HANDLE st) msg]\<rparr>
               in if status = PCAN_ERROR_OK P then
                    (Inr (Response 200 (JObj [(''success'', JBool True),
                                              (''message'', JStr ''Message sent successfully.'')])),
                     st1)
                  else
                    (case get_error_text P status st1 of
                       (Inl e, st2) \<Rightarrow>
                         (Inl (e, JStr (snd (fst (GetErrorText P (device st1) status)))), st2)
                     | (Inr text, st2) \<Rightarrow>
                         (Inr (Response 500 (JObj [(''success'', JBool False),
                                                   (''error'', JStr text)])), st2))))"

text \<open>The handler: \<^verbatim>\<open>except (KeyError, ValueError, TypeError)\<close> answers 400 for these
  classes and their subclasses; any other exception escapes.\<close>

definition write_message ::
    "'d pcan_env \<Rightarrow> json \<Rightarrow> 'd server_state \<Rightarrow> outcome \<times> 'd server_state" where
  "write_message P data st =
     (if \<not> truthy data then
        (Response 400 (JObj [(''success'', JBool False),
                             (''error'', JStr ''Invalid JSON body.'')]), st)
      else
        (case write_try P data st of
           (Inl (e, v), st') \<Rightarrow>
             if e = KeyError \<or> e = ValueError \<or> e = TypeError \<or> e = UnicodeDecodeError then
               (Response 400 (JObj [(''success'', JBool False),
                  (''error'', JStr (''Invalid request format: '' @ str_exn P e v))]), st')
             else (Unhandled e, st')
         | (Inr response, st') \<Rightarrow> (response, st')))"

section \<open>A concrete environment\<close>

text \<open>
  An environment to run the handlers on. The constants have the values of the vendor's
  \<^verbatim>\<open>PCANBasic.py\<close>. The state of the driver is its receive queue: a read takes the
  first frame, or answers \<open>PCAN_ERROR_QRCVEMPTY\<close> (\<open>0x20\<close>) on an empty queue. Only
  the channel \<open>PCAN_USBBUS1\<close> (\<open>0x51\<close>) is attached: initialising another handle
  answers \<open>PCAN_ERROR_ILLHW\<close> (\<open>0x1400\<close>), the one status with an error text. Every
  write is accepted. Of the Unicode tables it has the white space below code point 256
  and the fullwidth digits, and exceptions have an empty message.
\<close>

definition queue_bus :: "(can_msg \<times> timestamp) list pcan_env" where
  "queue_bus = \<lparr>PCAN_ERROR_OK = 0, PCAN_ERROR_QRCVEMPTY = 0x20,
       PCAN_USBBUS1 = CType 0x51, PCAN_BAUD_500K = CType 0x1C,
       PCAN_MESSAGE_STANDARD = 0, PCAN_MESSAGE_EXTENDED = 2, PCAN_MESSAGE_RTR = 1,
       namespace = [''PCAN_USBBUS1'' \<mapsto> CType 0x51,
                    ''PCAN_USBBUS2'' \<mapsto> CType 0x52,
                    ''PCAN_BAUD_500K'' \<mapsto> CType 0x1C,
                    ''PCAN_BAUD_250K'' \<mapsto> CType 0x11C],
       Py_UNICODE_ISSPACE = (\<lambda>cp. cp = 0x85 \<or> cp = 0xA0),
       Py_UNICODE_TODECIMAL = (\<lambda>cp. if 0xFF10 \<le> cp \<and> cp \<le> 0xFF19 then Some (cp - 0xFF10)
                                    else None),
       str_exn = (\<lambda>e v. []),
       Initialize = (\<lambda>q h b. (if h = 0x51 then 0 else 0x1400, q)),
       GetErrorText = (\<lambda>q s. (if s = 0x1400 then (0, ''The value of a handle is invalid'')
                                 else (0x8000, []), q)),
       Read = (\<lambda>q h. case q of
                  [] \<Rightarrow> ((0x20, TPCANMsg 0 0 0 (replicate 8 0), TPCANTimestamp 0 0 0), q)
                | (m, t) # q' \<Rightarrow> ((0, m, t), q')),
       ReadFD = (\<lambda>q h. case q of
                  [] \<Rightarrow> ((0x20, TPCANMsgFD 0 0 0 (replicate 64 0), TPCANTimestampFD 0), q)
                | (m, t) # q' \<Rightarrow> ((0, m, t), q')),
       Write = (\<lambda>q h m. (0, q)),
       WriteFD = (\<lambda>q h m. (0, q))\<rparr>"


section \<open>Properties\<close>

subsection \<open>Rounding\<close>

lemma to_double_examples:
  "to_double (1 / 10) = 3602879701896397 / 2 ^ 55"
  "to_double (2 ^ 53 + 1) = 2 ^ 53"
  "to_double (2 ^ 53 + 3) = 2 ^ 53 + 4"
  "to_double (- 5 / 2) = - 5 / 2"
  by code_simp+

lemma round_half_even_of_int: "round_half_even (of_int n) = n"
  by (simp add: round_half_even_def)

lemma round_half_even_err: "\<bar>of_int (round_half_even x) - x\<bar> \<le> 1 / 2"
proof -
  have "of_int \<lfloor>x\<rfloor> \<le> x" "x < of_int \<lfloor>x\<rfloor> + 1" by linarith+
  then show ?thesis unfolding round_half_even_def Let_def by auto
qed

lemma round_half_even_near:
  assumes "\<bar>x - of_int k\<bar> < 1 / 2"
  shows "round_half_even x = k"
proof -
  have "\<bar>(of_int (round_half_even x) :: rat) - of_int k\<bar> < 1"
    using round_half_even_err [of x] assms by linarith
  then have "\<bar>(of_int (round_half_even x - k) :: rat)\<bar> < 1" by simp
  then have "\<bar>round_half_even x - k\<bar> < 1"
    by (metis of_int_abs of_int_less_1_iff)
  then show ?thesis by linarith
qed

lemma ilog2_le:
  assumes "0 < q"
  shows "2 powi (ilog2 q) \<le> q"
proof -
  obtain a b where ab: "quotient_of q = (a, b)" by (cases "quotient_of q")
  have b: "0 < b" using ab quotient_of_denom_pos by blast
  have q: "q = of_int a / of_int b" using ab quotient_of_div by blast
  have a: "0 < a" using assms b q by (simp add: zero_less_divide_iff)
  let ?d = "bitlen a - bitlen b"
  show ?thesis
  proof (cases "2 powi ?d \<le> q")
    case True
    then show ?thesis by (simp add: ilog2_def ab)
  next
    case False
    have la: "(2::int) ^ nat (bitlen a - 1) \<le> a" using bitlen_bounds [OF a] by simp
    have lb: "b < (2::int) ^ nat (bitlen b)" using bitlen_bounds [OF b] by simp
    have pa: "0 < bitlen a" using a bitlen_eq_zero_iff [of a] bitlen_nonneg [of a] by linarith
    have pb: "0 < bitlen b" using b bitlen_eq_zero_iff [of b] bitlen_nonneg [of b] by linarith
    have la': "(2::rat) powi (bitlen a - 1) \<le> of_int a"
    proof -
      have "(of_int ((2::int) ^ nat (bitlen a - 1)) :: rat) \<le> of_int a"
        using la of_int_le_iff by blast
      moreover have "(2::rat) powi (bitlen a - 1) = 2 ^ nat (bitlen a - 1)"
        using pa by (simp add: power_int_def)
      ultimately show ?thesis by simp
    qed
    have lb': "of_int b \<le> (2::rat) powi (bitlen b)"
    proof -
      have "(of_int b :: rat) < of_int ((2::int) ^ nat (bitlen b))"
        using lb of_int_less_iff by blast
      moreover have "(2::rat) powi (bitlen b) = 2 ^ nat (bitlen b)"
        using pb by (simp add: power_int_def)
      ultimately show ?thesis by simp
    qed
    have "(2::rat) powi (?d - 1) = 2 powi (bitlen a - 1) / 2 powi (bitlen b)"
      by (simp add: power_int_diff)
    also have "\<dots> \<le> of_int a / 2 powi (bitlen b)"
      using la' by (simp add: divide_right_mono)
    also have "\<dots> \<le> of_int a / of_int b"
      using lb' a b by (simp add: frac_le)
    finally have "(2::rat) powi (?d - 1) \<le> q" using q by simp
    then show ?thesis unfolding ilog2_def ab using False by simp
  qed
qed

lemma ilog2_less:
  assumes "0 < q" "q < 2 powi n"
  shows "ilog2 q < n"
proof (rule ccontr)
  assume "\<not> ilog2 q < n"
  then have "n \<le> ilog2 q" by simp
  then have "(2::rat) powi n \<le> 2 powi (ilog2 q)"
    by (simp add: power_int_increasing)
  with ilog2_le [OF assms(1)] assms(2) show False by linarith
qed

lemma to_double_err:
  assumes "q \<noteq> 0" "\<bar>q\<bar> < 2 powi n" "- 1021 \<le> n"
  shows "\<bar>to_double q - q\<bar> \<le> 2 powi (n - 54)"
proof -
  define e where "e = max (ilog2 \<bar>q\<bar> - 52) (- 1074)"
  have "ilog2 \<bar>q\<bar> < n" using assms by (intro ilog2_less) auto
  then have e: "e \<le> n - 53" using assms(3) by (simp add: e_def)
  have pos: "(0::rat) < 2 powi e" by simp
  have "to_double q - q = (of_int (round_half_even (q / 2 powi e)) - q / 2 powi e) * 2 powi e"
    using assms(1) by (simp add: to_double_def e_def [symmetric] Let_def algebra_simps)
  then have "\<bar>to_double q - q\<bar> = \<bar>of_int (round_half_even (q / 2 powi e)) - q / 2 powi e\<bar> * 2 powi e"
    by (simp add: abs_mult)
  also have "\<dots> \<le> (1 / 2) * 2 powi e"
    using round_half_even_err [of "q / 2 powi e"] pos by (intro mult_right_mono) auto
  also have "\<dots> = 2 powi (e - 1)"
    by (simp add: power_int_diff)
  also have "\<dots> \<le> 2 powi (n - 54)"
    using e by (intro power_int_increasing) auto
  finally show ?thesis .
qed

lemma to_double_int:
  assumes "\<bar>k\<bar> < 2 ^ 53"
  shows "to_double (of_int k) = of_int k"
proof (cases "k = 0")
  case True
  then show ?thesis by (simp add: to_double_def)
next
  case False
  define e where "e = max (ilog2 \<bar>of_int k\<bar> - 52) (- 1074)"
  have "\<bar>(of_int k :: rat)\<bar> < 2 powi 53"
  proof -
    have "(of_int \<bar>k\<bar> :: rat) < of_int (2 ^ 53)" using assms of_int_less_iff by blast
    then show ?thesis by simp
  qed
  then have "ilog2 \<bar>of_int k\<bar> < 53" using False by (intro ilog2_less) auto
  then have e: "e \<le> 0" by (simp add: e_def)
  have p: "(2::rat) powi e = 1 / 2 ^ nat (- e)"
    using e by (simp add: power_int_def field_simps)
  have "(of_int k :: rat) / 2 powi e = of_int (k * 2 ^ nat (- e))"
    by (simp add: p)
  then have "round_half_even (of_int k / 2 powi e) = k * 2 ^ nat (- e)"
    by (simp only: round_half_even_of_int)
  then show ?thesis
    using False by (simp add: to_double_def e_def [symmetric] Let_def p)
qed


lemma byte_or:
  assumes "0 \<le> l" "l < 256"
  shows "push_bit 8 (h::int) OR l = 256 * h + l"
proof -
  have l: "take_bit 8 l = l" using assms by (simp add: take_bit_int_eq_self)
  have "push_bit 8 h + take_bit 8 l = push_bit 8 h OR take_bit 8 l"
    by (rule disjunctive_add) (auto simp: bit_push_bit_iff bit_take_bit_iff)
  then show ?thesis by (simp add: l push_bit_eq_mult)
qed

lemma int_to_float_exact:
  assumes "\<bar>k\<bar> < 2 ^ 53"
  shows "int_to_float k = Inr (of_int k)"
proof -
  have "(of_int \<bar>k\<bar> :: rat) < of_int (2 ^ 53)" using assms of_int_less_iff by blast
  then have "\<bar>(of_int k :: rat)\<bar> < 2 ^ 53" by simp
  moreover have "(2::rat) ^ 53 \<le> 2 ^ 1024" by (rule power_increasing) auto
  ultimately have "\<not> (2::rat) ^ 1024 \<le> \<bar>of_int k\<bar>" by linarith
  then show ?thesis by (simp add: int_to_float_def to_double_int [OF assms])
qed

lemma int_truediv_float_exact:
  assumes "\<bar>k\<bar> < 2 ^ 53" "d \<noteq> 0"
  shows "int_truediv_float k d = Inr (to_double (of_int k / d))"
  using assms(2) by (simp add: int_truediv_float_def int_to_float_exact [OF assms(1)])

lemma to_double_centi_err:
  assumes "\<bar>k\<bar> < 102400"
  shows "\<bar>to_double (of_int k / 100) - of_int k / 100\<bar> \<le> 1 / 2 ^ 44"
proof (cases "k = 0")
  case True
  then show ?thesis by (simp add: to_double_def)
next
  case False
  have "(of_int \<bar>k\<bar> :: rat) < of_int 102400" using assms of_int_less_iff by blast
  then have "\<bar>(of_int k :: rat) / 100\<bar> < 2 powi 10" by simp
  moreover have "(of_int k :: rat) / 100 \<noteq> 0" using False by simp
  ultimately have "\<bar>to_double (of_int k / 100) - of_int k / 100\<bar> \<le> 2 powi (10 - 54)"
    by (intro to_double_err) auto
  then show ?thesis by (simp add: power_int_minus field_simps)
qed

lemma py_round_centi:
  assumes "\<bar>k\<bar> < 102400"
  shows "py_round (to_double (of_int k / 100)) 2 = to_double (of_int k / 100)"
proof -
  let ?x = "to_double (of_int k / 100)"
  have "?x * 100 - of_int k = (?x - of_int k / 100) * 100" by simp
  then have "\<bar>?x * 100 - of_int k\<bar> = \<bar>?x - of_int k / 100\<bar> * 100"
    by (simp only: abs_mult)
  also have "\<dots> \<le> (1 / 2 ^ 44) * 100"
    using to_double_centi_err [OF assms] by (intro mult_right_mono) auto
  also have "\<dots> < 1 / 2" by simp
  finally have "round_half_even (?x * 100) = k" by (rule round_half_even_near)
  then show ?thesis by (simp add: py_round_def)
qed

lemma parse_sensor_data_bytes:
  assumes len: "7 \<le> length p"
    and b4: "0 \<le> p ! 4" "p ! 4 \<le> 255"
    and b5: "0 \<le> p ! 5" "p ! 5 \<le> 255"
    and b6: "0 \<le> p ! 6" "p ! 6 \<le> 255"
  shows "parse_sensor_data p =
           Some \<lparr>sensor_id = p ! 0, packet_type = p ! 1,
                 pressure = push_bit 8 (p ! 2) OR p ! 3,
                 temperature = to_double (of_int (256 * (p ! 5) + p ! 4 - 8500) / 100),
                 battery_watts = to_double (of_int (p ! 6 + 200) / 100)\<rparr>"
proof -
  let ?k = "256 * (p ! 5) + p ! 4 - 8500"
  let ?m = "p ! 6 * 10 + 2000"
  have raw: "push_bit 8 (p ! 5) OR p ! 4 = 256 * (p ! 5) + p ! 4"
    using b4 by (intro byte_or) auto
  have k: "\<bar>?k\<bar> < 102400" using b4 b5 by linarith
  have m: "\<bar>p ! 6 + 200\<bar> < 102400" using b6 by linarith
  have t: "int_truediv_float ?k 100 = Inr (to_double (of_int ?k / 100))"
    using k by (intro int_truediv_float_exact) auto
  have w: "int_truediv_float ?m 1000 = Inr (to_double (of_int ?m / 1000))"
    using b6 by (intro int_truediv_float_exact) auto
  have eq: "(of_int ?m :: rat) / 1000 = of_int (p ! 6 + 200) / 100" by simp
  have nl: "\<not> length p < 7" using len by simp
  note r1 = py_round_centi [OF k] and r2 = py_round_centi [OF m]
  show ?thesis
    by (simp only: parse_sensor_data_def Let_def raw t w eq r1 r2 nl if_False sum.case)
qed

lemma bytes_nth:
  assumes "\<forall>b \<in> set p. 0 \<le> b \<and> b \<le> (255::int)" "i < length p"
  shows "0 \<le> p ! i" "p ! i \<le> 255"
  using assms nth_mem by blast+
subsection \<open>The TPMS decoder\<close>

text \<open>
  Claim C2. For every sequence \<open>p\<close> of bytes (integers from 0 to 255),
  \<open>parse_sensor_data\<close> returns \<open>None\<close> exactly when \<open>p\<close> has fewer than 7 elements, and
  a reading for every \<open>p\<close> with at least 7. The decoder is a function of the payload
  alone: it takes no state and returns none, so decoding a payload twice gives the same
  reading.
\<close>

theorem parse_sensor_data_none_iff:
  assumes "\<forall>b \<in> set p. 0 \<le> b \<and> b \<le> 255"
  shows "(parse_sensor_data p = None \<longleftrightarrow> length p < 7)
       \<and> (7 \<le> length p \<longrightarrow> (\<exists>r. parse_sensor_data p = Some r))"
proof (cases "length p < 7")
  case True
  then show ?thesis by (simp add: parse_sensor_data_def)
next
  case False
  then have len: "7 \<le> length p" by simp
  have "parse_sensor_data p \<noteq> None"
    using parse_sensor_data_bytes [OF len]
      bytes_nth [OF assms, of 4] bytes_nth [OF assms, of 5] bytes_nth [OF assms, of 6] len
    by simp
  then show ?thesis using False by auto
qed

theorem parse_sensor_data_none_iff_witness:
  "parse_sensor_data [1, 2, 1, 0, 0, 0] = None
   \<and> parse_sensor_data [1, 2, 1, 0, 0, 0, 255] \<noteq> None"
  using parse_sensor_data_none_iff [of "[1, 2, 1, 0, 0, 0]"]
    parse_sensor_data_none_iff [of "[1, 2, 1, 0, 0, 0, 255]"]
  by simp

text \<open>
  Claim C3. For every payload \<open>p\<close> of at least 7 bytes the decoded temperature is
  \<open>(temp_raw - 8500) / 100\<close> rounded to 2 decimals, where \<open>temp_raw\<close> is
  \<open>(p[5] << 8) | p[4]\<close>, that is \<open>256 * p[5] + p[4]\<close>: byte 5 is the high byte. The
  rounding changes nothing: the result is the binary64 number nearest to the exact
  two-decimal value, within \<open>2\<^sup>-\<^sup>4\<^sup>4\<close> of it. Bytes 4 and 5 both zero give \<open>-85.00\<close>,
  \<open>temp_raw = 8500\<close> gives \<open>0.00\<close>, and \<open>temp_raw < 8500\<close> gives a negative temperature.
\<close>

theorem parse_sensor_data_temperature:
  assumes "7 \<le> length p" and "\<forall>b \<in> set p. 0 \<le> b \<and> b \<le> 255"
  shows "\<exists>r. parse_sensor_data p = Some r
     \<and> push_bit 8 (p ! 5) OR p ! 4 = 256 * p ! 5 + p ! 4
     \<and> temperature r =
          py_round (to_double (of_int ((push_bit 8 (p ! 5) OR p ! 4) - 8500) / 100)) 2
     \<and> temperature r = to_double (of_int (256 * p ! 5 + p ! 4 - 8500) / 100)
     \<and> \<bar>temperature r - of_int (256 * p ! 5 + p ! 4 - 8500) / 100\<bar> \<le> 1 / 2 ^ 44
     \<and> (p ! 4 = 0 \<and> p ! 5 = 0 \<longrightarrow> temperature r = - 85)
     \<and> (256 * p ! 5 + p ! 4 = 8500 \<longrightarrow> temperature r = 0)
     \<and> (256 * p ! 5 + p ! 4 < 8500 \<longrightarrow> temperature r < 0)"
proof -
  let ?k = "256 * p ! 5 + p ! 4 - 8500"
  let ?t = "to_double (of_int ?k / 100)"
  note b4 = bytes_nth [OF assms(2), of 4] and b5 = bytes_nth [OF assms(2), of 5]
    and b6 = bytes_nth [OF assms(2), of 6]
  have i: "4 < length p" "5 < length p" "6 < length p" using assms(1) by simp_all
  obtain r where r: "parse_sensor_data p = Some r" and t: "temperature r = ?t"
    using parse_sensor_data_bytes [OF assms(1) b4 [OF i(1)] b5 [OF i(2)] b6 [OF i(3)]]
    by simp
  have raw: "push_bit 8 (p ! 5) OR p ! 4 = 256 * p ! 5 + p ! 4"
    using b4 [OF i(1)] by (intro byte_or) auto
  have k: "\<bar>?k\<bar> < 102400" using b4 [OF i(1)] b5 [OF i(2)] by linarith
  have err: "\<bar>?t - of_int ?k / 100\<bar> \<le> 1 / 2 ^ 44" by (rule to_double_centi_err [OF k])
  have rnd: "py_round ?t 2 = ?t" by (rule py_round_centi [OF k])
  have zero: "256 * p ! 5 + p ! 4 = 8500 \<longrightarrow> ?t = 0"
    by (simp add: to_double_def)
  have low: "p ! 4 = 0 \<and> p ! 5 = 0 \<longrightarrow> ?t = - 85"
  proof -
    have "to_double (of_int (- 85)) = of_int (- 85)" by (rule to_double_int) simp
    then show ?thesis by simp
  qed
  have neg: "256 * p ! 5 + p ! 4 < 8500 \<longrightarrow> ?t < 0"
  proof
    assume "256 * p ! 5 + p ! 4 < 8500"
    then have "?k \<le> - 1" by simp
    then have "(of_int ?k :: rat) \<le> of_int (- 1)" using of_int_le_iff by blast
    then have "(of_int ?k :: rat) / 100 \<le> - 1 / 100" by simp
    moreover have "(1::rat) / 2 ^ 44 < 1 / 100" by simp
    ultimately show "?t < 0" using err by linarith
  qed
  show ?thesis
    using r raw rnd err zero low neg unfolding raw t [symmetric]
    by (intro exI [of _ r]) (simp only: simp_thms)
qed

theorem parse_sensor_data_temperature_witness:
  "temperature (the (parse_sensor_data [1, 2, 1, 0, 0, 0, 255])) = - 85
   \<and> temperature (the (parse_sensor_data [1, 2, 1, 0, 52, 33, 0])) = 0
   \<and> temperature (the (parse_sensor_data [1, 2, 1, 0, 51, 33, 0])) < 0"
  using parse_sensor_data_temperature [of "[1, 2, 1, 0, 0, 0, 255]"]
    parse_sensor_data_temperature [of "[1, 2, 1, 0, 52, 33, 0]"]
    parse_sensor_data_temperature [of "[1, 2, 1, 0, 51, 33, 0]"]
  by auto

text \<open>
  Claim C9. For every payload \<open>p\<close> of at least 7 bytes the decoded \<open>battery_watts\<close> is
  \<open>(p[6] * 10 + 2000) / 1000\<close> rounded to 2 decimals: the binary64 number nearest to that
  exact two-decimal value, within \<open>2\<^sup>-\<^sup>4\<^sup>4\<close> of it. Byte 6 equal to 0 gives \<open>2.00\<close>, and
  byte 6 equal to 255 gives \<open>4.55\<close>, the binary64 number \<open>5122844576133939 / 2\<^sup>5\<^sup>0\<close>
  that the literal \<open>4.55\<close> denotes.
\<close>

theorem parse_sensor_data_battery:
  assumes "7 \<le> length p" and "\<forall>b \<in> set p. 0 \<le> b \<and> b \<le> 255"
  shows "\<exists>r. parse_sensor_data p = Some r
     \<and> battery_watts r = py_round (to_double (of_int (p ! 6 * 10 + 2000) / 1000)) 2
     \<and> battery_watts r = to_double (of_int (p ! 6 * 10 + 2000) / 1000)
     \<and> \<bar>battery_watts r - of_int (p ! 6 * 10 + 2000) / 1000\<bar> \<le> 1 / 2 ^ 44
     \<and> (p ! 6 = 0 \<longrightarrow> battery_watts r = 2)
     \<and> (p ! 6 = 255 \<longrightarrow> battery_watts r = to_double (455 / 100)
                        \<and> battery_watts r = 5122844576133939 / 2 ^ 50)"
proof -
  let ?m = "p ! 6 * 10 + 2000"
  let ?w = "to_double (of_int ?m / 1000)"
  note b4 = bytes_nth [OF assms(2), of 4] and b5 = bytes_nth [OF assms(2), of 5]
    and b6 = bytes_nth [OF assms(2), of 6]
  have i: "4 < length p" "5 < length p" "6 < length p" using assms(1) by simp_all
  have eq: "(of_int ?m :: rat) / 1000 = of_int (p ! 6 + 200) / 100" by simp
  obtain r where r: "parse_sensor_data p = Some r" and w: "battery_watts r = ?w"
    using parse_sensor_data_bytes [OF assms(1) b4 [OF i(1)] b5 [OF i(2)] b6 [OF i(3)]]
    by (simp only: eq) simp
  have m: "\<bar>p ! 6 + 200\<bar> < 102400" using b6 [OF i(3)] by linarith
  have err: "\<bar>?w - of_int ?m / 1000\<bar> \<le> 1 / 2 ^ 44"
    using to_double_centi_err [OF m] by (simp only: eq)
  have rnd: "py_round ?w 2 = ?w"
    using py_round_centi [OF m] by (simp only: eq)
  have two: "p ! 6 = 0 \<longrightarrow> ?w = 2"
  proof -
    have "to_double (of_int 2) = of_int 2" by (rule to_double_int) simp
    then show ?thesis by simp
  qed
  have lit: "to_double (455 / 100) = 5122844576133939 / 2 ^ 50" by code_simp
  have top: "p ! 6 = 255 \<longrightarrow> ?w = to_double (455 / 100)"
    by simp
  have top': "p ! 6 = 255 \<longrightarrow> ?w = 5122844576133939 / 2 ^ 50"
    using top lit by simp
  have "parse_sensor_data p = Some r
     \<and> ?w = py_round ?w 2 \<and> ?w = ?w
     \<and> \<bar>?w - of_int ?m / 1000\<bar> \<le> 1 / 2 ^ 44
     \<and> (p ! 6 = 0 \<longrightarrow> ?w = 2)
     \<and> (p ! 6 = 255 \<longrightarrow> ?w = to_double (455 / 100) \<and> ?w = 5122844576133939 / 2 ^ 50)"
    using r rnd [symmetric] err two top top' by blast
  then show ?thesis
    unfolding w [symmetric] by (rule exI)
qed

theorem parse_sensor_data_battery_witness:
  "battery_watts (the (parse_sensor_data [1, 2, 1, 0, 0, 0, 0])) = 2
   \<and> battery_watts (the (parse_sensor_data [1, 2, 1, 0, 0, 0, 255])) = 5122844576133939 / 2 ^ 50"
  using parse_sensor_data_battery [of "[1, 2, 1, 0, 0, 0, 0]"]
    parse_sensor_data_battery [of "[1, 2, 1, 0, 0, 0, 255]"]
  by auto

text \<open>
  Claim C10. Two payloads of at least 7 elements that agree on the elements 0 to 6 decode
  to the same result: the decoder reads the first 7 elements only.
\<close>

theorem parse_sensor_data_first_seven:
  assumes "7 \<le> length p" and "7 \<le> length q" and "take 7 p = take 7 q"
  shows "parse_sensor_data p = parse_sensor_data q"
proof -
  have nth: "p ! i = q ! i" if "i < 7" for i
    using that assms(3) by (metis nth_take)
  have "p ! 0 = q ! 0" "p ! 1 = q ! 1" "p ! 2 = q ! 2" "p ! 3 = q ! 3"
    "p ! 4 = q ! 4" "p ! 5 = q ! 5" "p ! 6 = q ! 6"
    by (simp_all add: nth)
  then show ?thesis
    using assms(1,2) by (simp add: parse_sensor_data_def Let_def cong: sum.case_cong)
qed

theorem parse_sensor_data_first_seven_witness:
  "parse_sensor_data [1, 2, 1, 0, 52, 33, 0, 9, 9] = parse_sensor_data [1, 2, 1, 0, 52, 33, 0, 7]"
  using parse_sensor_data_first_seven [of "[1, 2, 1, 0, 52, 33, 0, 9, 9]" "[1, 2, 1, 0, 52, 33, 0, 7]"]
  by simp

subsection \<open>Timestamps\<close>

lemma read_message_ok:
  assumes "(if truthy (IS_FD st) then ReadFD P (device st) (PCAN_HANDLE st)
            else Read P (device st) (PCAN_HANDLE st)) = ((PCAN_ERROR_OK P, m, ts), d')"
    and "PCAN_ERROR_OK P \<noteq> PCAN_ERROR_QRCVEMPTY P"
    and "length_field (truthy (IS_FD st)) m = Inr n"
    and "n \<le> length (DATA m)"
  shows "\<exists>msg_data. fst (read_message P st) =
           Response 200 (JObj [(''success'', JBool True), (''message'', msg_data),
                               (''timestamp_us'', JInt (ts_value ts))])"
  using assms by (simp add: read_message_def Let_def)

text \<open>
  Claim C4. A classic timestamp with sub-fields \<open>millis\<close>, \<open>millis_overflow\<close> and
  \<open>micros\<close> is reconstructed as \<open>micros + 1000 * millis + 2\<^sup>3\<^sup>2 * 1000 * millis_overflow\<close>;
  an FD timestamp is its 64-bit counter itself. Both are one unsigned 64-bit count of
  microseconds, and a successful read returns it as \<open>timestamp_us\<close>.
\<close>

theorem read_message_timestamp:
  assumes "(if truthy (IS_FD st) then ReadFD P (device st) (PCAN_HANDLE st)
            else Read P (device st) (PCAN_HANDLE st)) = ((PCAN_ERROR_OK P, m, ts), d')"
    and "PCAN_ERROR_OK P \<noteq> PCAN_ERROR_QRCVEMPTY P"
    and "length_field (truthy (IS_FD st)) m = Inr n"
    and "n \<le> length (DATA m)"
  shows "(\<exists>msg_data. fst (read_message P st) =
            Response 200 (JObj [(''success'', JBool True), (''message'', msg_data),
                                (''timestamp_us'', JInt (ts_value ts))]))
       \<and> (\<forall>ms ovf us. ts = TPCANTimestamp ms ovf us \<longrightarrow>
             ts_value ts = uint us + 1000 * uint ms + 2 ^ 32 * 1000 * uint ovf)
       \<and> (\<forall>v. ts = TPCANTimestampFD v \<longrightarrow> ts_value ts = uint v)
       \<and> 0 \<le> ts_value ts \<and> ts_value ts < 2 ^ 64"
proof -
  have bound: "0 \<le> ts_value ts \<and> ts_value ts < 2 ^ 64"
  proof (cases ts)
    case (TPCANTimestamp ms ovf us)
    have "uint us < 2 ^ 16" "uint ms < 2 ^ 32" "uint ovf < 2 ^ 16"
      using uint_bounded [of us] uint_bounded [of ms] uint_bounded [of ovf] by simp_all
    moreover have "0 \<le> uint us" "0 \<le> uint ms" "0 \<le> uint ovf" by simp_all
    ultimately show ?thesis using TPCANTimestamp by (simp add: ts_value_def)
  next
    case (TPCANTimestampFD v)
    then show ?thesis using uint_bounded [of v] by (simp add: ts_value_def)
  qed
  show ?thesis
    using read_message_ok [OF assms] bound by (auto simp: ts_value_def)
qed

theorem read_message_timestamp_witness:
  "fst (read_message queue_bus
          (initial_state queue_bus
             [(TPCANMsg 0x1FF 0 8 [1, 2, 1, 0, 52, 33, 0, 9], TPCANTimestamp 5 1 7)])) =
     Response 200 (JObj [(''success'', JBool True),
       (''message'', JObj [(''id'', JStr ''1FF''), (''msg_type'', JInt 0), (''len'', JInt 8),
          (''data'', JArr [JInt 1, JInt 2, JInt 1, JInt 0, JInt 52, JInt 33, JInt 0, JInt 9]),
          (''parsed'', JObj [(''sensor_id'', JInt 1), (''packet_type'', JInt 2),
             (''pressure'', JInt 256), (''temperature'', JFloat 0),
             (''battery_watts'', JFloat 2)])]),
       (''timestamp_us'', JInt 4294967301007)])
   \<and> ts_value (TPCANTimestamp 5 1 7) = 7 + 1000 * 5 + 2 ^ 32 * 1000 * 1"
proof -
  let ?m = "TPCANMsg 0x1FF 0 8 [1, 2, 1, 0, 52, 33, 0, 9]"
  let ?ts = "TPCANTimestamp 5 1 7"
  let ?st = "initial_state queue_bus [(?m, ?ts)]"
  have r: "(if truthy (IS_FD ?st) then ReadFD queue_bus (device ?st) (PCAN_HANDLE ?st)
            else Read queue_bus (device ?st) (PCAN_HANDLE ?st))
           = ((PCAN_ERROR_OK queue_bus, ?m, ?ts), [])"
    by (simp add: initial_state_def queue_bus_def)
  have ne: "PCAN_ERROR_OK queue_bus \<noteq> PCAN_ERROR_QRCVEMPTY queue_bus"
    by (simp add: queue_bus_def)
  have l: "length_field (truthy (IS_FD ?st)) ?m = Inr 8"
    by (simp add: initial_state_def)
  have d: "8 \<le> length (DATA ?m)" by simp
  have v: "fst (read_message queue_bus ?st) =
     Response 200 (JObj [(''success'', JBool True),
       (''message'', JObj [(''id'', JStr ''1FF''), (''msg_type'', JInt 0), (''len'', JInt 8),
          (''data'', JArr [JInt 1, JInt 2, JInt 1, JInt 0, JInt 52, JInt 33, JInt 0, JInt 9]),
          (''parsed'', JObj [(''sensor_id'', JInt 1), (''packet_type'', JInt 2),
             (''pressure'', JInt 256), (''temperature'', JFloat 0),
             (''battery_watts'', JFloat 2)])]),
       (''timestamp_us'', JInt 4294967301007)])"
    by code_simp
  show ?thesis
    using read_message_timestamp [OF r ne l d] v by simp
qed

subsection \<open>TPMS collection state\<close>

text \<open>
  Claim C7, as stated, fails: the server stores no tire count, and the status response
  has no \<open>tire_count\<close> field. After \<open>start\<close> with \<open>tire_count\<close> 4 the status body is
  \<open>{success: true, is_collecting: true}\<close>, and the state is the one \<open>start\<close> with
  \<open>tire_count\<close> 5 leaves.
\<close>

theorem tpms_status_without_tire_count:
  "fst (get_tpms_status (snd (start_tpms_collection (JObj [(''tire_count'', JInt 4)])
          (initial_state queue_bus [])))) =
     Response 200 (JObj [(''success'', JBool True), (''is_collecting'', JBool True)])
   \<and> py_getitem (JObj [(''success'', JBool True), (''is_collecting'', JBool True)])
         ''tire_count'' = Inl KeyError
   \<and> snd (start_tpms_collection (JObj [(''tire_count'', JInt 4)]) (initial_state queue_bus [])) =
     snd (start_tpms_collection (JObj [(''tire_count'', JInt 5)]) (initial_state queue_bus []))"
  by (simp add: get_tpms_status_def start_tpms_collection_def)

text \<open>
  Claim C7, amended. After \<open>start\<close> with any \<open>tire_count\<close>, \<open>status\<close> reports
  \<open>is_collecting = true\<close>; after a subsequent \<open>stop\<close> it reports
  \<open>is_collecting = false\<close>. \<open>start\<close> and \<open>stop\<close> change the collection flag and nothing
  else; the tire count is not stored and not reported.
\<close>

theorem tpms_start_stop_status:
  "fst (get_tpms_status (snd (start_tpms_collection (JObj [(''tire_count'', n)]) st))) =
     Response 200 (JObj [(''success'', JBool True), (''is_collecting'', JBool True)])
   \<and> fst (get_tpms_status (snd (stop_tpms_collection
            (snd (start_tpms_collection (JObj [(''tire_count'', n)]) st))))) =
     Response 200 (JObj [(''success'', JBool True), (''is_collecting'', JBool False)])
   \<and> snd (start_tpms_collection (JObj [(''tire_count'', n)]) st) =
       st\<lparr>is_tpms_collection_active := True\<rparr>
   \<and> snd (stop_tpms_collection (snd (start_tpms_collection (JObj [(''tire_count'', n)]) st))) =
       st\<lparr>is_tpms_collection_active := False\<rparr>
   \<and> snd (get_tpms_status st) = st"
  by (simp add: get_tpms_status_def start_tpms_collection_def stop_tpms_collection_def)

theorem tpms_start_stop_status_witness:
  "fst (get_tpms_status (snd (stop_tpms_collection
          (snd (start_tpms_collection (JObj [(''tire_count'', JInt 4)])
             (initial_state queue_bus [])))))) =
     Response 200 (JObj [(''success'', JBool True), (''is_collecting'', JBool False)])"
  using tpms_start_stop_status [of "JInt 4" "initial_state queue_bus []"] by blast

subsection \<open>Reading and writing while the channel is not initialised\<close>

lemma get_error_text_pcan_initialized:
  "get_error_text P status (st\<lparr>pcan_initialized := b\<rparr>) =
     (fst (get_error_text P status st), (snd (get_error_text P status st))\<lparr>pcan_initialized := b\<rparr>)"
  by (simp add: get_error_text_def split: prod.splits)

lemma prepare_message_pcan_initialized:
  "prepare_message P data (st\<lparr>pcan_initialized := b\<rparr>) = prepare_message P data st"
  by (simp add: prepare_message_def cong: sum.case_cong)

lemma read_message_pcan_initialized:
  "read_message P (st\<lparr>pcan_initialized := b\<rparr>) =
     (fst (read_message P st), (snd (read_message P st))\<lparr>pcan_initialized := b\<rparr>)"
  by (simp add: read_message_def Let_def get_error_text_def split: prod.splits sum.splits option.splits)

lemma write_try_pcan_initialized:
  "write_try P data (st\<lparr>pcan_initialized := b\<rparr>) =
     (fst (write_try P data st), (snd (write_try P data st))\<lparr>pcan_initialized := b\<rparr>)"
  by (simp add: write_try_def Let_def get_error_text_def prepare_message_pcan_initialized
      split: prod.splits sum.splits option.splits)

lemma write_message_pcan_initialized:
  "write_message P data (st\<lparr>pcan_initialized := b\<rparr>) =
     (fst (write_message P data st), (snd (write_message P data st))\<lparr>pcan_initialized := b\<rparr>)"
  by (simp add: write_message_def write_try_pcan_initialized split: prod.splits sum.splits)

lemma read_message_calls:
  "\<exists>rest. calls (snd (read_message P st)) =
     calls st @ (if truthy (IS_FD st) then CallReadFD (PCAN_HANDLE st)
                 else CallRead (PCAN_HANDLE st)) # rest"
  by (simp add: read_message_def Let_def get_error_text_def split: prod.splits sum.splits option.splits)

lemma write_message_calls:
  assumes "truthy data" and "prepare_message P data st = Inr msg"
  shows "\<exists>rest. calls (snd (write_message P data st)) =
     calls st @ (if truthy (IS_FD st) then CallWriteFD (PCAN_HANDLE st) msg
                 else CallWrite (PCAN_HANDLE st) msg) # rest"
  using assms
  by (simp add: write_message_def write_try_def Let_def get_error_text_def
      split: prod.splits sum.splits option.splits)

text \<open>The response of a read, by the status the driver returns.\<close>

lemma read_message_by_status:
  assumes "(if truthy (IS_FD st) then ReadFD P (device st) (PCAN_HANDLE st)
            else Read P (device st) (PCAN_HANDLE st)) = ((status, m, ts), d')"
  shows "(status = PCAN_ERROR_QRCVEMPTY P \<longrightarrow>
            fst (read_message P st) =
              Response 200 (JObj [(''success'', JBool True),
                                  (''message'', JStr ''Receive queue is empty.'')]))
       \<and> (status \<noteq> PCAN_ERROR_QRCVEMPTY P \<and> status \<noteq> PCAN_ERROR_OK P \<longrightarrow>
            (\<forall>code text d''. GetErrorText P d' status = ((code, text), d'') \<longrightarrow>
               fst (read_message P st) =
                 (if code \<noteq> PCAN_ERROR_OK P then
                    Response 500 (JObj [(''success'', JBool False),
                      (''error'', JStr (''Unknown error code: '' @ format_X 5 status @ ''h''))])
                  else if utf8_decode text = None then Unhandled UnicodeDecodeError
                  else Response 500 (JObj [(''success'', JBool False), (''error'', JStr text)]))))
       \<and> (status \<noteq> PCAN_ERROR_QRCVEMPTY P \<and> status = PCAN_ERROR_OK P \<longrightarrow>
            (\<forall>n. length_field (truthy (IS_FD st)) m = Inr n \<and> n \<le> length (DATA m) \<longrightarrow>
               fst (read_message P st) =
                 Response 200 (JObj [(''success'', JBool True),
                   (''message'',
                    JObj [(''id'', JStr (hex_digits (uint (ID m)))),
                          (''msg_type'', JInt (uint (MSGTYPE m))),
                          (''len'', JInt (int n)),
                          (''data'', JArr (map JInt (map uint (take n (DATA m))))),
                          (''parsed'',
                           if 7 \<le> n
                           then (case parse_sensor_data (map uint (take n (DATA m))) of
                                   None \<Rightarrow> JNull
                                 | Some r \<Rightarrow> reading_json r)
                           else JNull)]),
                   (''timestamp_us'', JInt (ts_value ts))])))"
  using assms
  by (simp add: read_message_def Let_def get_error_text_def split: option.splits)

text \<open>The response of a write whose message was built, by the status the driver
  returns.\<close>

lemma write_message_by_status:
  assumes "truthy data" and "prepare_message P data st = Inr msg"
    and "(if truthy (IS_FD st) then WriteFD P (device st) (PCAN_HANDLE st) msg
          else Write P (device st) (PCAN_HANDLE st) msg) = (status, d')"
  shows "(status = PCAN_ERROR_OK P \<longrightarrow>
            fst (write_message P data st) =
              Response 200 (JObj [(''success'', JBool True),
                                  (''message'', JStr ''Message sent successfully.'')]))
       \<and> (status \<noteq> PCAN_ERROR_OK P \<longrightarrow>
            (\<forall>code text d''. GetErrorText P d' status = ((code, text), d'') \<longrightarrow>
               fst (write_message P data st) =
                 (if code \<noteq> PCAN_ERROR_OK P then
                    Response 500 (JObj [(''success'', JBool False),
                      (''error'', JStr (''Unknown error code: '' @ format_X 5 status @ ''h''))])
                  else if utf8_decode text = None then
                    Response 400 (JObj [(''success'', JBool False),
                      (''error'', JStr (''Invalid request format: '' @
                                        str_exn P UnicodeDecodeError (JStr text)))])
                  else Response 500 (JObj [(''success'', JBool False), (''error'', JStr text)]))))"
  using assms
  by (simp add: write_message_def write_try_def Let_def get_error_text_def split: option.splits)

text \<open>
  Claim C1, as stated, fails: the handlers have no guard on \<open>pcan_initialized\<close>. In the
  initial state, where \<open>pcan_initialized\<close> is false, \<open>read_message\<close> calls the driver's
  \<open>Read\<close> and answers 200 with the driver's "queue empty", and \<open>write_message\<close> calls
  the driver's \<open>Write\<close> with the frame and answers 200.
\<close>

theorem read_write_forwarded_while_uninitialized:
  "\<not> pcan_initialized (initial_state queue_bus [])
   \<and> read_message queue_bus (initial_state queue_bus []) =
       (Response 200 (JObj [(''success'', JBool True),
                            (''message'', JStr ''Receive queue is empty.'')]),
        (initial_state queue_bus [])\<lparr>calls := [CallRead (CType 0x51)]\<rparr>)
   \<and> write_message queue_bus (JObj [(''id'', JStr ''1FF''), (''data'', JArr [JInt 1, JInt 2])])
         (initial_state queue_bus []) =
       (Response 200 (JObj [(''success'', JBool True),
                            (''message'', JStr ''Message sent successfully.'')]),
        (initial_state queue_bus [])
          \<lparr>calls := [CallWrite (CType 0x51) (TPCANMsg 0x1FF 0 2 [1, 2, 0, 0, 0, 0, 0, 0])]\<rparr>)"
  by code_simp

text \<open>
  Claim C1, amended. \<open>read_message\<close> and \<open>write_message\<close> do not consult
  \<open>pcan_initialized\<close>: their response and their calls to the driver are the same
  whatever the flag is, and they leave the flag as it was. A read always calls the
  driver's \<open>Read\<close> (\<open>ReadFD\<close> when \<open>IS_FD\<close> is set); a write whose body is not empty
  and whose message can be built always calls \<open>Write\<close> (\<open>WriteFD\<close>) with that message.
  The response is the one the status returned by the driver determines, and there is no
  \<open>NotInitialized\<close> error. For a read: 200 with "Receive queue is empty." on
  \<open>PCAN_ERROR_QRCVEMPTY\<close>; on any other status but \<open>PCAN_ERROR_OK\<close>, 500 with the
  driver's text of that status (with "Unknown error code" when the driver has no text;
  a text that is no UTF-8 escapes as \<open>UnicodeDecodeError\<close>); on \<open>PCAN_ERROR_OK\<close> with a
  well-formed frame, 200 with the frame and its timestamp. For such a write: 200 with
  "Message sent successfully." on \<open>PCAN_ERROR_OK\<close>, and on any other status 500 with
  the driver's text (a text that is no UTF-8 is answered 400).
\<close>

theorem read_write_ignore_pcan_initialized:
  "read_message P (st\<lparr>pcan_initialized := b\<rparr>) =
     (fst (read_message P st), (snd (read_message P st))\<lparr>pcan_initialized := b\<rparr>)
   \<and> write_message P data (st\<lparr>pcan_initialized := b\<rparr>) =
     (fst (write_message P data st), (snd (write_message P data st))\<lparr>pcan_initialized := b\<rparr>)
   \<and> (\<exists>rest. calls (snd (read_message P st)) =
         calls st @ (if truthy (IS_FD st) then CallReadFD (PCAN_HANDLE st)
                     else CallRead (PCAN_HANDLE st)) # rest)
   \<and> (\<forall>msg. truthy data \<and> prepare_message P data st = Inr msg \<longrightarrow>
         (\<exists>rest. calls (snd (write_message P data st)) =
            calls st @ (if truthy (IS_FD st) then CallWriteFD (PCAN_HANDLE st) msg
                        else CallWrite (PCAN_HANDLE st) msg) # rest))
   \<and> (\<forall>status m ts d'.
         (if truthy (IS_FD st) then ReadFD P (device st) (PCAN_HANDLE st)
          else Read P (device st) (PCAN_HANDLE st)) = ((status, m, ts), d') \<longrightarrow>
         (status = PCAN_ERROR_QRCVEMPTY P \<longrightarrow>
            fst (read_message P st) =
              Response 200 (JObj [(''success'', JBool True),
                                  (''message'', JStr ''Receive queue is empty.'')]))
       \<and> (status \<noteq> PCAN_ERROR_QRCVEMPTY P \<and> status \<noteq> PCAN_ERROR_OK P \<longrightarrow>
            (\<forall>code text d''. GetErrorText P d' status = ((code, text), d'') \<longrightarrow>
               fst (read_message P st) =
                 (if code \<noteq> PCAN_ERROR_OK P then
                    Response 500 (JObj [(''success'', JBool False),
                      (''error'', JStr (''Unknown error code: '' @ format_X 5 status @ ''h''))])
                  else if utf8_decode text = None then Unhandled UnicodeDecodeError
                  else Response 500 (JObj [(''success'', JBool False), (''error'', JStr text)]))))
       \<and> (status \<noteq> PCAN_ERROR_QRCVEMPTY P \<and> status = PCAN_ERROR_OK P \<longrightarrow>
            (\<forall>n. length_field (truthy (IS_FD st)) m = Inr n \<and> n \<le> length (DATA m) \<longrightarrow>
               fst (read_message P st) =
                 Response 200 (JObj [(''success'', JBool True),
                   (''message'',
                    JObj [(''id'', JStr (hex_digits (uint (ID m)))),
                          (''msg_type'', JInt (uint (MSGTYPE m))),
                          (''len'', JInt (int n)),
                          (''data'', JArr (map JInt (map uint (take n (DATA m))))),
                          (''parsed'',
                           if 7 \<le> n
                           then (case parse_sensor_data (map uint (take n (DATA m))) of
                                   None \<Rightarrow> JNull
                                 | Some r \<Rightarrow> reading_json r)
                           else JNull)]),
                   (''timestamp_us'', JInt (ts_value ts))]))))
   \<and> (\<forall>msg status d'.
         truthy data \<and> prepare_message P data st = Inr msg
         \<and> (if truthy (IS_FD st) then WriteFD P (device st) (PCAN_HANDLE st) msg
             else Write P (device st) (PCAN_HANDLE st) msg) = (status, d') \<longrightarrow>
         (status = PCAN_ERROR_OK P \<longrightarrow>
            fst (write_message P data st) =
              Response 200 (JObj [(''success'', JBool True),
                                  (''message'', JStr ''Message sent successfully.'')]))
       \<and> (status \<noteq> PCAN_ERROR_OK P \<longrightarrow>
            (\<forall>code text d''. GetErrorText P d' status = ((code, text), d'') \<longrightarrow>
               fst (write_message P data st) =
                 (if code \<noteq> PCAN_ERROR_OK P then
                    Response 500 (JObj [(''success'', JBool False),
                      (''error'', JStr (''Unknown error code: '' @ format_X 5 status @ ''h''))])
                  else if utf8_decode text = None then
                    Response 400 (JObj [(''success'', JBool False),
                      (''error'', JStr (''Invalid request format: '' @
                                        str_exn P UnicodeDecodeError (JStr text)))])
                  else Response 500 (JObj [(''success'', JBool False), (''error'', JStr text)])))))"
proof -
  note r1 = read_message_pcan_initialized [where P = P and st = st and b = b]
  note w1 = write_message_pcan_initialized [where P = P and data = data and st = st and b = b]
  note r2 = read_message_calls [where P = P and st = st]
  have w2: "\<forall>msg. truthy data \<and> prepare_message P data st = Inr msg \<longrightarrow>
         (\<exists>rest. calls (snd (write_message P data st)) =
            calls st @ (if truthy (IS_FD st) then CallWriteFD (PCAN_HANDLE st) msg
                        else CallWrite (PCAN_HANDLE st) msg) # rest)"
    using write_message_calls [where P = P and data = data and st = st] by blast
  show ?thesis
    apply (intro conjI)
         apply (rule r1)
        apply (rule w1)
       apply (rule r2)
      apply (rule w2)
     apply (intro allI impI)
     apply (erule read_message_by_status)
    apply (intro allI impI)
    apply (elim conjE)
    apply (erule (2) write_message_by_status)
    done
qed

theorem read_write_ignore_pcan_initialized_witness:
  "read_message queue_bus ((initial_state queue_bus [])\<lparr>pcan_initialized := True\<rparr>) =
     (Response 200 (JObj [(''success'', JBool True),
                          (''message'', JStr ''Receive queue is empty.'')]),
      (initial_state queue_bus [])
        \<lparr>pcan_initialized := True, calls := [CallRead (CType 0x51)]\<rparr>)
   \<and> calls (snd (write_message queue_bus
                  (JObj [(''id'', JStr ''1FF''), (''data'', JArr [JInt 1, JInt 2])])
                  (initial_state queue_bus []))) =
       [CallWrite (CType 0x51) (TPCANMsg 0x1FF 0 2 [1, 2, 0, 0, 0, 0, 0, 0])]"
proof -
  let ?st = "initial_state queue_bus []"
  let ?data = "JObj [(''id'', JStr ''1FF''), (''data'', JArr [JInt 1, JInt 2])]"
  have r: "read_message queue_bus ?st =
       (Response 200 (JObj [(''success'', JBool True),
                            (''message'', JStr ''Receive queue is empty.'')]),
        ?st\<lparr>calls := [CallRead (CType 0x51)]\<rparr>)"
    by code_simp
  have w: "calls (snd (write_message queue_bus ?data ?st)) =
       [CallWrite (CType 0x51) (TPCANMsg 0x1FF 0 2 [1, 2, 0, 0, 0, 0, 0, 0])]"
    by code_simp
  note inst = read_write_ignore_pcan_initialized
      [where P = queue_bus and st = ?st and b = True and data = ?data]
  have flag: "read_message queue_bus (?st\<lparr>pcan_initialized := True\<rparr>) =
     (fst (read_message queue_bus ?st), (snd (read_message queue_bus ?st))\<lparr>pcan_initialized := True\<rparr>)"
    using inst by (rule conjunct1)
  have dev: "(if truthy (IS_FD ?st) then ReadFD queue_bus (device ?st) (PCAN_HANDLE ?st)
              else Read queue_bus (device ?st) (PCAN_HANDLE ?st)) =
             ((PCAN_ERROR_QRCVEMPTY queue_bus, TPCANMsg 0 0 0 (replicate 8 0), TPCANTimestamp 0 0 0), [])"
    by (simp add: initial_state_def queue_bus_def)
  have "fst (read_message queue_bus ?st) =
          Response 200 (JObj [(''success'', JBool True),
                              (''message'', JStr ''Receive queue is empty.'')])"
    using inst dev by blast
  then show ?thesis using flag r w by simp
qed

subsection \<open>Initialising in FD mode\<close>

text \<open>With \<open>is_fd\<close> true no call is made to the driver, and the answer is 501 whenever
  the two names can be looked up, that is, whenever they are hashable.\<close>

lemma init_can_fd_hashable:
  assumes "map_of kvs ''is_fd'' = Some (JBool True)"
  shows "calls (snd (init_can P (JObj kvs) st)) = calls st
       \<and> device (snd (init_can P (JObj kvs) st)) = device st
       \<and> ((case map_of kvs ''channel'' of None \<Rightarrow> True | Some v \<Rightarrow> hashable v)
            \<and> (case map_of kvs ''baudrate'' of None \<Rightarrow> True | Some v \<Rightarrow> hashable v)
          \<longrightarrow> init_can P (JObj kvs) st =
                (Response 501 (JObj [(''success'', JBool False),
                   (''error'', JStr ''CAN-FD Initialization is not fully implemented in this example.'')]),
                 st\<lparr>IS_FD := JBool True\<rparr>))"
proof -
  define ch where "ch = (case map_of kvs ''channel'' of None \<Rightarrow> JStr ''PCAN_USBBUS1'' | Some v \<Rightarrow> v)"
  define bd where "bd = (case map_of kvs ''baudrate'' of None \<Rightarrow> JStr ''PCAN_BAUD_500K'' | Some v \<Rightarrow> v)"
  let ?gh = "globals_get P st ch (PCAN_USBBUS1 P)"
  let ?gb = "globals_get P st bd (PCAN_BAUD_500K P)"
  let ?r501 = "Response 501 (JObj [(''success'', JBool False),
       (''error'', JStr ''CAN-FD Initialization is not fully implemented in this example.'')])"
  have ne: "kvs \<noteq> []" using assms by auto
  have res: "resolve_config P (JObj kvs) st =
      (case ?gh of Inl e \<Rightarrow> Inl e
       | Inr h \<Rightarrow> (case ?gb of Inl e \<Rightarrow> Inl e
                   | Inr b \<Rightarrow> Inr (h, b, st\<lparr>IS_FD := JBool True\<rparr>)))"
    using assms ne by (simp add: resolve_config_def ch_def bd_def cong: sum.case_cong)
  have hash: "\<exists>obj. globals_get P st key dflt = Inr obj" if "hashable key" for key dflt
    using that by (cases key) (simp_all add: globals_get_def)
  have hch: "hashable ch" if "case map_of kvs ''channel'' of None \<Rightarrow> True | Some v \<Rightarrow> hashable v"
    using that by (simp add: ch_def split: option.splits)
  have hbd: "hashable bd" if "case map_of kvs ''baudrate'' of None \<Rightarrow> True | Some v \<Rightarrow> hashable v"
    using that by (simp add: bd_def split: option.splits)
  have fd: "init_can P (JObj kvs) st = (?r501, st\<lparr>IS_FD := JBool True\<rparr>)"
    if "?gh = Inr h" "?gb = Inr b" for h b
    using that by (simp add: init_can_def res)
  have untouched: "calls (snd (init_can P (JObj kvs) st)) = calls st
       \<and> device (snd (init_can P (JObj kvs) st)) = device st"
  proof (cases ?gh)
    case (Inl e)
    then show ?thesis by (simp add: init_can_def res)
  next
    case h: (Inr h)
    show ?thesis
    proof (cases ?gb)
      case (Inl e)
      then show ?thesis using h by (simp add: init_can_def res)
    next
      case (Inr b)
      then show ?thesis using fd [OF h Inr] by simp
    qed
  qed
  have ok: "init_can P (JObj kvs) st = (?r501, st\<lparr>IS_FD := JBool True\<rparr>)"
    if c: "case map_of kvs ''channel'' of None \<Rightarrow> True | Some v \<Rightarrow> hashable v"
      and d: "case map_of kvs ''baudrate'' of None \<Rightarrow> True | Some v \<Rightarrow> hashable v"
  proof -
    obtain h where h: "?gh = Inr h" using hash [OF hch [OF c]] by blast
    obtain b where b: "?gb = Inr b" using hash [OF hbd [OF d]] by blast
    show ?thesis by (rule fd [OF h b])
  qed
  show ?thesis using untouched ok by blast
qed

text \<open>A \<open>channel\<close> that is a JSON array is no name: the look-up raises \<open>TypeError\<close>
  before \<open>is_fd\<close> is read, still without a call to the driver.\<close>

lemma init_can_unhashable_channel:
  "init_can queue_bus (JObj [(''channel'', JArr []), (''is_fd'', JBool True)])
     (initial_state queue_bus []) =
   (Unhandled TypeError, initial_state queue_bus [])"
  by code_simp

text \<open>
  Claim C5. For every initialize request whose body sets \<open>is_fd\<close> to true, where
  \<open>channel\<close> and \<open>baudrate\<close> are each absent or a string (the symbolic names of the request
  format), \<open>init_can\<close> answers 501 whatever the two names are, and no call is made to
  the driver: \<open>IS_FD\<close> becomes true and nothing else changes.
\<close>

theorem init_can_fd_not_implemented:
  assumes "map_of kvs ''is_fd'' = Some (JBool True)"
    and "\<forall>v. map_of kvs ''channel'' = Some v \<longrightarrow> (\<exists>name. v = JStr name)"
    and "\<forall>v. map_of kvs ''baudrate'' = Some v \<longrightarrow> (\<exists>name. v = JStr name)"
  shows "init_can P (JObj kvs) st =
           (Response 501 (JObj [(''success'', JBool False),
              (''error'', JStr ''CAN-FD Initialization is not fully implemented in this example.'')]),
            st\<lparr>IS_FD := JBool True\<rparr>)
       \<and> calls (snd (init_can P (JObj kvs) st)) = calls st
       \<and> device (snd (init_can P (JObj kvs) st)) = device st"
proof -
  have c: "case map_of kvs ''channel'' of None \<Rightarrow> True | Some v \<Rightarrow> hashable v"
    using assms(2) by (auto split: option.splits)
  have d: "case map_of kvs ''baudrate'' of None \<Rightarrow> True | Some v \<Rightarrow> hashable v"
    using assms(3) by (auto split: option.splits)
  show ?thesis
    using init_can_fd_hashable [OF assms(1), where P = P and st = st] c d by blast
qed

theorem init_can_fd_not_implemented_witness:
  "init_can queue_bus (JObj [(''channel'', JStr ''PCAN_USBBUS2''), (''baudrate'', JStr ''no such rate''),
                             (''is_fd'', JBool True)]) (initial_state queue_bus []) =
     (Response 501 (JObj [(''success'', JBool False),
        (''error'', JStr ''CAN-FD Initialization is not fully implemented in this example.'')]),
      (initial_state queue_bus [])\<lparr>IS_FD := JBool True\<rparr>)"
  using init_can_fd_not_implemented
    [where kvs = "[(''channel'', JStr ''PCAN_USBBUS2''), (''baudrate'', JStr ''no such rate''),
                   (''is_fd'', JBool True)]"
       and P = queue_bus and st = "initial_state queue_bus []"]
  by simp

subsection \<open>Writing an oversized classic frame\<close>

lemma store_data_overflow:
  assumes "length arr < i + length items" and "i \<le> length arr"
  shows "store_data arr i items = Inl TypeError \<or> store_data arr i items = Inl IndexError"
  using assms
proof (induction items arbitrary: arr i)
  case Nil
  then show ?case by simp
next
  case (Cons v vs)
  show ?case
  proof (cases "length arr \<le> i")
    case True
    then show ?thesis by simp
  next
    case False
    show ?thesis
    proof (cases "c_ubyte_of v")
      case (Inl e)
      then have "e = TypeError" by (cases v) simp_all
      then show ?thesis using False Inl by simp
    next
      case (Inr b)
      have "length (arr[i := b]) < Suc i + length vs" "Suc i \<le> length (arr[i := b])"
        using Cons.prems False by simp_all
      then show ?thesis using Cons.IH [of "arr[i := b]" "Suc i"] False Inr by simp
    qed
  qed
qed

lemma py_iter_length:
  assumes "py_len payload = Inr n"
  shows "\<exists>items. py_iter payload = Inr items \<and> length items = n"
  using assms by (cases payload) auto

lemma prepare_message_classic_oversize:
  assumes "\<not> truthy (IS_FD st)"
    and "py_get data ''data'' (JArr []) = Inr payload"
    and "py_len payload = Inr n" and "8 < n"
  shows "\<exists>e. prepare_message P data st = Inl e
           \<and> (e = KeyError \<or> e = ValueError \<or> e = TypeError \<or> e = IndexError)"
proof -
  obtain kvs where data: "data = JObj kvs" using assms(2) by (cases data) simp_all
  obtain items where items: "py_iter payload = Inr items" "length items = n"
    using py_iter_length [OF assms(3)] by blast
  have st: "store_data (replicate 8 0) 0 items = Inl TypeError
          \<or> store_data (replicate 8 0) 0 items = Inl IndexError"
    using assms(4) items(2) by (intro store_data_overflow) simp_all
  have pre: "prepare_message P data st =
      (case py_getitem data ''id'' of
         Inl e \<Rightarrow> Inl e
       | Inr id_hex \<Rightarrow>
           (case py_int16 (Py_UNICODE_ISSPACE P) (Py_UNICODE_TODECIMAL P) id_hex of
              Inl e \<Rightarrow> Inl e
            | Inr ident \<Rightarrow>
                (case store_data (replicate 8 0) 0 items of
                   Inl e \<Rightarrow> Inl e
                 | Inr arr \<Rightarrow>
                     Inr (TPCANMsg (word_of_int ident)
                       (let t0 = PCAN_MESSAGE_STANDARD P;
                            t1 = (if truthy (case map_of kvs ''extended'' of None \<Rightarrow> JBool False | Some v \<Rightarrow> v)
                                  then t0 OR PCAN_MESSAGE_EXTENDED P else t0)
                        in if truthy (case map_of kvs ''rtr'' of None \<Rightarrow> JBool False | Some v \<Rightarrow> v)
                           then t1 OR PCAN_MESSAGE_RTR P else t1)
                       (of_nat n) arr))))"
    using assms(1,2,3) items(1)
    by (simp add: prepare_message_def Let_def data split: sum.splits)
  show ?thesis
  proof (cases "py_getitem data ''id''")
    case (Inl e)
    then have "e = KeyError" by (simp add: data split: option.splits)
    then show ?thesis using Inl by (simp add: pre)
  next
    case id: (Inr v)
    show ?thesis
    proof (cases "py_int16 (Py_UNICODE_ISSPACE P) (Py_UNICODE_TODECIMAL P) v")
      case (Inl e)
      then have "e = TypeError \<or> e = ValueError"
        by (cases v) (auto split: option.splits)
      then show ?thesis using id Inl by (auto simp: pre)
    next
      case (Inr k)
      then show ?thesis using id st by (auto simp: pre)
    qed
  qed
qed

lemma write_message_classic_oversize:
  assumes "\<not> truthy (IS_FD st)"
    and "py_get data ''data'' (JArr []) = Inr payload"
    and "py_len payload = Inr n" and "8 < n"
  shows "snd (write_message P data st) = st
       \<and> ((\<exists>body. fst (write_message P data st) = Response 400 body)
          \<or> fst (write_message P data st) = Unhandled IndexError)"
proof -
  obtain e where e: "prepare_message P data st = Inl e"
      "e = KeyError \<or> e = ValueError \<or> e = TypeError \<or> e = IndexError"
    using prepare_message_classic_oversize [OF assms] by blast
  show ?thesis using e by (auto simp: write_message_def write_try_def)
qed

text \<open>
  Claim C6 fails on the code. In classic mode the write request with \<open>id\<close> \<open>"1FF"\<close>,
  nine data bytes and \<open>extended = false\<close> makes no call to the driver, as the claim
  says, but it does not end in the 400 response: storing the ninth byte into the 8-byte
  \<open>DATA\<close> array raises \<open>IndexError\<close>, which the handler's
  \<^verbatim>\<open>except (KeyError, ValueError, TypeError)\<close> does not catch. The same request
  with an \<open>id\<close> that is no hexadecimal number is answered with 400, and the same
  request with eight bytes is sent.
\<close>

theorem write_message_nine_bytes:
  "write_message queue_bus
     (JObj [(''id'', JStr ''1FF''),
            (''data'', JArr [JInt 0, JInt 1, JInt 2, JInt 3, JInt 4, JInt 5, JInt 6, JInt 7, JInt 8]),
            (''extended'', JBool False)])
     (initial_state queue_bus []) =
   (Unhandled IndexError, initial_state queue_bus [])
   \<and> write_message queue_bus
     (JObj [(''id'', JStr ''1FG''),
            (''data'', JArr [JInt 0, JInt 1, JInt 2, JInt 3, JInt 4, JInt 5, JInt 6, JInt 7, JInt 8]),
            (''extended'', JBool False)])
     (initial_state queue_bus []) =
   (Response 400 (JObj [(''success'', JBool False),
      (''error'', JStr (''Invalid request format: '' @ str_exn queue_bus ValueError
         (JObj [(''id'', JStr ''1FG''),
                (''data'', JArr [JInt 0, JInt 1, JInt 2, JInt 3, JInt 4, JInt 5, JInt 6, JInt 7, JInt 8]),
                (''extended'', JBool False)])))]),
    initial_state queue_bus [])
   \<and> write_message queue_bus
     (JObj [(''id'', JStr ''1FF''),
            (''data'', JArr [JInt 0, JInt 1, JInt 2, JInt 3, JInt 4, JInt 5, JInt 6, JInt 7]),
            (''extended'', JBool False)])
     (initial_state queue_bus []) =
   (Response 200 (JObj [(''success'', JBool True),
                        (''message'', JStr ''Message sent successfully.'')]),
    (initial_state queue_bus [])
      \<lparr>calls := [CallWrite (CType 0x51) (TPCANMsg 0x1FF 0 8 [0, 1, 2, 3, 4, 5, 6, 7])]\<rparr>)"
  by code_simp

subsection \<open>Initialising in classic mode\<close>


text \<open>The driver's text of a status, when the driver has one and it is UTF-8.\<close>

lemma get_error_text_decoded:
  assumes "GetErrorText P (device st) status = ((PCAN_ERROR_OK P, text), d'')"
    and "utf8_decode text \<noteq> None"
  shows "fst (get_error_text P status st) = Inr text"
  using assms by (auto simp: get_error_text_def)



text \<open>A text of the driver that is no UTF-8 is not decoded: the exception leaves
  \<open>init_can\<close>, after \<open>pcan_initialized\<close> was set to false.\<close>

lemma init_can_undecodable_text:
  "init_can (queue_bus\<lparr>GetErrorText := (\<lambda>q s. ((0, [CHR 0xFC, CHR 0x62]), q))\<rparr>)
     (JObj [(''channel'', JStr ''PCAN_USBBUS2'')]) (initial_state queue_bus []) =
   (Unhandled UnicodeDecodeError,
    (initial_state queue_bus [])
      \<lparr>calls := [CallInitialize 0x52 0x1C, CallGetErrorText 0x1400]\<rparr>)"
  by code_simp

end
